theory Spec2Isabelle
  imports Complex_Main "HOL-Library.Char_ord" "HOL-Library.List_Lexorder"
begin

section \<open>Errors\<close>

text \<open>
  Every exception the modelled code can raise is a value. The constructors keep the
  Python exception classes; where one class is raised at two places the constructor
  carries the message or the name that tells them apart.
\<close>

datatype error =
    ValueError string        \<comment> \<open>\<^verbatim>\<open>raise ValueError(...)\<close>, also raised by \<^verbatim>\<open>P.snip\<close>\<close>
  | AssertionError string    \<comment> \<open>a failed \<^verbatim>\<open>assert\<close>, with its message\<close>
  | AttributeError string    \<comment> \<open>\<^verbatim>\<open>None.group(1)\<close> after a regex that did not match\<close>
  | KeyError string          \<comment> \<open>\<^verbatim>\<open>df.loc[key, 1]\<close> on a missing row label\<close>
  | NameError string         \<comment> \<open>a global name that is not bound\<close>
  | OSError nat              \<comment> \<open>an operating-system error with its errno\<close>
  | IOError string           \<comment> \<open>opening a file that does not exist\<close>
  | RunError string          \<comment> \<open>\<^verbatim>\<open>P.run\<close> on a statement that exits non-zero\<close>

section \<open>Accounting aggregator: \<^verbatim>\<open>summarizeReadCounts\<close>\<close>

subsection \<open>Floating point values of the percentage columns\<close>

text \<open>
  The counts read by pandas are 64-bit integers; \<^verbatim>\<open>lost / float(input_reads) * 100\<close> is
  computed in IEEE binary64. A finite double is modelled by the rational it denotes.
  \<open>fl\<close> rounds a rational to the nearest number with a 53-bit significand, ties to even.
  The exponent range is not bounded: the operands of this program are quotients of 64-bit
  integers times 100, far from overflow and from the subnormal range. Division by zero
  follows numpy (the dividend is a numpy scalar): it yields an infinity or NaN and raises
  nothing.
\<close>

datatype float64 = Finite rat | PosInf | NegInf | NaN

definition rint :: "rat \<Rightarrow> int" where
  "rint m =
     (let f = \<lfloor>m\<rfloor>; d = m - of_int f
      in if d < 1 / 2 then f
         else if 1 / 2 < d then f + 1
         else if even f then f else f + 1)"

definition pow2 :: "int \<Rightarrow> rat" where
  "pow2 k = (if 0 \<le> k then 2 ^ nat k else 1 / 2 ^ nat (- k))"

function bit_length :: "int \<Rightarrow> int" where
  \<comment> \<open>the number of binary digits of a positive integer\<close>
  "bit_length n = (if n \<le> 0 then 0 else 1 + bit_length (n div 2))"
  by pat_completeness auto
termination
  by (relation "measure nat") auto

declare bit_length.simps [simp del]

definition ilog2 :: "rat \<Rightarrow> int" where
  \<comment> \<open>for \<open>0 < x\<close>: the \<open>k\<close> with \<open>2 ^ k \<le> x < 2 ^ (k + 1)\<close>\<close>
  "ilog2 x =
     (let (p, q) = quotient_of x;
          e0 = bit_length p - bit_length q
      in if pow2 e0 \<le> x then e0 else e0 - 1)"

definition fl_pos :: "rat \<Rightarrow> rat" where
  "fl_pos x = (let k = ilog2 x - 52 in of_int (rint (x / pow2 k)) * pow2 k)"

definition fl :: "rat \<Rightarrow> rat" where
  "fl x = (if x = 0 then 0 else if 0 < x then fl_pos x else - fl_pos (- x))"

definition float_of_int :: "int \<Rightarrow> float64" where
  "float_of_int n = Finite (fl (of_int n))"

fun f64_div :: "float64 \<Rightarrow> float64 \<Rightarrow> float64" where
  "f64_div (Finite a) (Finite b) =
     (if b = 0 then (if a = 0 then NaN else if 0 < a then PosInf else NegInf)
      else Finite (fl (a / b)))"
| "f64_div NaN _ = NaN"
| "f64_div _ NaN = NaN"
| "f64_div (Finite a) _ = Finite 0"
| "f64_div PosInf (Finite b) = (if 0 \<le> b then PosInf else NegInf)"
| "f64_div NegInf (Finite b) = (if 0 \<le> b then NegInf else PosInf)"
| "f64_div _ _ = NaN"

fun f64_mul :: "float64 \<Rightarrow> float64 \<Rightarrow> float64" where
  "f64_mul (Finite a) (Finite b) = Finite (fl (a * b))"
| "f64_mul NaN _ = NaN"
| "f64_mul _ NaN = NaN"
| "f64_mul PosInf (Finite b) = (if b = 0 then NaN else if 0 < b then PosInf else NegInf)"
| "f64_mul NegInf (Finite b) = (if b = 0 then NaN else if 0 < b then NegInf else PosInf)"
| "f64_mul (Finite a) PosInf = (if a = 0 then NaN else if 0 < a then PosInf else NegInf)"
| "f64_mul (Finite a) NegInf = (if a = 0 then NaN else if 0 < a then NegInf else PosInf)"
| "f64_mul PosInf PosInf = PosInf"
| "f64_mul NegInf NegInf = PosInf"
| "f64_mul _ _ = NegInf"

fun f64_rint :: "float64 \<Rightarrow> float64" where
  "f64_rint (Finite a) = Finite (of_int (rint a))"
| "f64_rint x = x"

definition round2 :: "float64 \<Rightarrow> float64" where
  \<comment> \<open>\<^verbatim>\<open>round(x, 2)\<close> on a numpy double: multiply by \<open>10 ^ 2\<close>, round to the nearest
      integer (ties to even), divide by \<open>10 ^ 2\<close>\<close>
  "round2 x = f64_div (f64_rint (f64_mul x (Finite 100))) (Finite 100)"

definition percent_of :: "int \<Rightarrow> int \<Rightarrow> float64" where
  \<comment> \<open>\<^verbatim>\<open>round(n/float(input_reads) * 100, 2)\<close>\<close>
  "percent_of n input_reads =
     round2 (f64_mul (f64_div (float_of_int n) (float_of_int input_reads)) (Finite 100))"

subsection \<open>One row of the table\<close>

text \<open>
  The collated table of one sample (\<^verbatim>\<open>pd.read_table(infile, index_col=0, header=None)\<close>)
  has one line per step: the step label and the count. It is an association list;
  \<^verbatim>\<open>df.loc[key, 1]\<close> raises \<^verbatim>\<open>KeyError\<close> for a label that is not there. The
  values are the integers pandas reads into a 64-bit column, and \<^verbatim>\<open>df.loc\<close> gives one
  of them when the label occurs once; \<open>nreads_counts\<close> below names the tables for which
  the integer arithmetic of \<open>make_row\<close> is that of the 64-bit values.
\<close>

type_synonym read_count_table = "(string \<times> int) list"

definition df_loc :: "read_count_table \<Rightarrow> string \<Rightarrow> error + int" where
  "df_loc df key = (case map_of df key of None \<Rightarrow> Inl (KeyError key) | Some v \<Rightarrow> Inr v)"

record accounting_row =
  sample_id :: string
  input_reads :: int
  output_reads :: int
  duplicates :: int
  adapter_contamination :: int
  host :: int
  low_complexity :: int
  duplicates_percent :: float64
  adapters_percent :: float64
  host_percent :: float64
  low_complexity_perc :: float64
  remaining_percent :: float64

definition make_row :: "string \<Rightarrow> int \<Rightarrow> int \<Rightarrow> int \<Rightarrow> int \<Rightarrow> int \<Rightarrow> accounting_row" where
  \<comment> \<open>lines 648 to 666: the losses, their percentages and the line written\<close>
  "make_row sid input deduped deadapt dehost masked =
     (let lost_dup = input - deduped;
          lost_adapt = deduped - deadapt;
          lost_host = deadapt - dehost;
          lost_mask = dehost - masked
      in \<lparr> sample_id = sid, input_reads = input, output_reads = masked,
           duplicates = lost_dup, adapter_contamination = lost_adapt,
           host = lost_host, low_complexity = lost_mask,
           duplicates_percent = percent_of lost_dup input,
           adapters_percent = percent_of lost_adapt input,
           host_percent = percent_of lost_host input,
           low_complexity_perc = percent_of lost_mask input,
           remaining_percent = percent_of masked input \<rparr>)"

definition summarize_sample :: "string \<Rightarrow> read_count_table \<Rightarrow> error + accounting_row" where
  \<comment> \<open>the body of the loop; the lookups in the order of lines 642 to 646\<close>
  "summarize_sample sid df =
     (case df_loc df ''deadapt'' of Inl e \<Rightarrow> Inl e | Inr deadapt \<Rightarrow>
     (case df_loc df ''deduped'' of Inl e \<Rightarrow> Inl e | Inr deduped \<Rightarrow>
     (case df_loc df ''dehost'' of Inl e \<Rightarrow> Inl e | Inr dehost \<Rightarrow>
     (case df_loc df ''masked'' of Inl e \<Rightarrow> Inl e | Inr masked \<Rightarrow>
     (case df_loc df ''input'' of Inl e \<Rightarrow> Inl e | Inr input \<Rightarrow>
        Inr (make_row sid input deduped deadapt dehost masked))))))"

text \<open>
  The loop over the samples appends one line per sample to the output file. An exception
  leaves the loop: the lines written so far stay in the file and the pipeline step fails. The
  result is the list of rows written and the exception, if any.
\<close>

fun summarize_loop ::
  "(string \<times> read_count_table) list \<Rightarrow> accounting_row list \<Rightarrow> accounting_row list \<times> error option"
where
  "summarize_loop [] written = (written, None)"
| "summarize_loop ((sid, df) # infiles) written =
     (case summarize_sample sid df of
        Inl e \<Rightarrow> (written, Some e)
      | Inr row \<Rightarrow> summarize_loop infiles (written @ [row]))"

definition summarizeReadCounts ::
  "(string \<times> read_count_table) list \<Rightarrow> accounting_row list \<times> error option"
where
  "summarizeReadCounts infiles = summarize_loop infiles []"

definition required_steps :: "string list" where
  \<comment> \<open>the row labels read on lines 642 to 646, in that order\<close>
  "required_steps = [''deadapt'', ''deduped'', ''dehost'', ''masked'', ''input'']"

text \<open>
  A table of read counts as the counting functions write them for well-formed files: every
  label once, every count an integer from 0 up to, not including, \<open>2 ^ 63\<close>. pandas
  reads such a column as \<^verbatim>\<open>int64\<close>, a difference of two of its values lies strictly
  between \<open>- 2 ^ 63\<close> and \<open>2 ^ 63\<close>, and so the 64-bit subtraction of lines 648 to 651
  does not wrap.
\<close>

definition nreads_counts :: "read_count_table \<Rightarrow> bool" where
  "nreads_counts df = (distinct (map fst df) \<and> (\<forall>(k, v)\<in>set df. 0 \<le> v \<and> v < 2 ^ 63))"


section \<open>Input resolver: \<^verbatim>\<open>FASTQ1S\<close> and \<^verbatim>\<open>IS_PAIRED\<close>\<close>

text \<open>
  Lines 77 to 101 run when the module is loaded. Their input is the configured directory
  \<^verbatim>\<open>DATADIR\<close> and the names \<^verbatim>\<open>os.listdir(DATADIR)\<close> returns (the directory does
  not change between the four calls). File names are strings of code points below 256.
\<close>

definition FASTQ1_SUFFIX :: string where
  "FASTQ1_SUFFIX = ''fastq.1.gz''"

definition FASTQ2_SUFFIX :: string where
  "FASTQ2_SUFFIX = ''fastq.2.gz''"

definition is_space :: "char \<Rightarrow> bool" where
  \<comment> \<open>the characters \<^verbatim>\<open>\\s\<close> matches in a Python 3 str pattern, below 256\<close>
  "is_space c = (of_char c \<in> set [9, 10, 11, 12, 13, 28, 29, 30, 31, 32, 133, 160 :: nat])"

text \<open>
  The pattern is \<^verbatim>\<open>'(\\S+).(%s)' % SUFFIX\<close>, used with \<^verbatim>\<open>match\<close>: anchored at the start of
  the string and not at its end. The suffix is part of the pattern, so its dots match any
  character but a newline, as the dot between the two groups does. \<open>re_prefix\<close> says
  that the text starts with a match of the suffix; \<open>re_valid suffix k s\<close> that group 1
  may be the first \<open>k\<close> characters; \<open>re_backtrack\<close> tries the longest group first, as the
  greedy \<^verbatim>\<open>\\S+\<close> does. The result is \<^verbatim>\<open>match(s).group(1)\<close>, or \<open>None\<close> when
  \<^verbatim>\<open>match(s)\<close> is \<^verbatim>\<open>None\<close>.
\<close>

fun re_prefix :: "string \<Rightarrow> string \<Rightarrow> bool" where
  "re_prefix [] s = True"
| "re_prefix (p # ps) [] = False"
| "re_prefix (p # ps) (c # cs) =
     ((if p = CHR ''.'' then c \<noteq> CHR 0x0A else c = p) \<and> re_prefix ps cs)"

definition re_valid :: "string \<Rightarrow> nat \<Rightarrow> string \<Rightarrow> bool" where
  "re_valid suffix k s =
     (k < length s \<and> s ! k \<noteq> CHR 0x0A \<and> re_prefix suffix (drop (Suc k) s))"

fun re_backtrack :: "string \<Rightarrow> nat \<Rightarrow> string \<Rightarrow> string option" where
  "re_backtrack suffix 0 s = None"
| "re_backtrack suffix (Suc k) s =
     (if re_valid suffix (Suc k) s then Some (take (Suc k) s) else re_backtrack suffix k s)"

definition fq_regex_match :: "string \<Rightarrow> string \<Rightarrow> string option" where
  "fq_regex_match suffix s =
     re_backtrack suffix (length (takeWhile (\<lambda>c. \<not> is_space c) s)) s"

definition os_path_join :: "string \<Rightarrow> string \<Rightarrow> string" where
  \<comment> \<open>\<^verbatim>\<open>os.path.join(a, b)\<close> on POSIX\<close>
  "os_path_join a b =
     (if b \<noteq> [] \<and> hd b = CHR ''/'' then b
      else if a = [] \<or> last a = CHR ''/'' then a @ b
      else a @ ''/'' @ b)"

definition compress :: "'a list \<Rightarrow> bool list \<Rightarrow> 'a list" where
  \<comment> \<open>\<^verbatim>\<open>itertools.compress(data, selectors)\<close>\<close>
  "compress data selectors = map fst (filter snd (zip data selectors))"

definition mask_of :: "string \<Rightarrow> string list \<Rightarrow> bool list" where
  \<comment> \<open>\<^verbatim>\<open>list(map(lambda x: bool(regex.match(x)), os.listdir(DATADIR)))\<close>\<close>
  "mask_of suffix listing = map (\<lambda>x. fq_regex_match suffix x \<noteq> None) listing"

definition sum_mask :: "bool list \<Rightarrow> nat" where
  \<comment> \<open>\<^verbatim>\<open>sum(mask)\<close>: the number of \<^verbatim>\<open>True\<close> entries\<close>
  "sum_mask selectors = length (filter (\<lambda>b. b) selectors)"

definition FASTQ1S :: "string \<Rightarrow> string list \<Rightarrow> string list" where
  "FASTQ1S DATADIR listing =
     map (os_path_join DATADIR) (compress listing (mask_of FASTQ1_SUFFIX listing))"

definition fastq2s :: "string \<Rightarrow> string list \<Rightarrow> string list" where
  "fastq2s DATADIR listing =
     map (os_path_join DATADIR) (compress listing (mask_of FASTQ2_SUFFIX listing))"

fun stubs :: "string \<Rightarrow> string list \<Rightarrow> error + string list" where
  \<comment> \<open>\<^verbatim>\<open>[regex.match(x).group(1) for x in xs]\<close>\<close>
  "stubs suffix [] = Inr []"
| "stubs suffix (x # xs) =
     (case fq_regex_match suffix x of
        None \<Rightarrow> Inl (AttributeError ''group'')
      | Some g \<Rightarrow> (case stubs suffix xs of Inl e \<Rightarrow> Inl e | Inr gs \<Rightarrow> Inr (g # gs)))"

definition IS_PAIRED :: "string \<Rightarrow> string list \<Rightarrow> error + bool" where
  "IS_PAIRED DATADIR listing =
     (let mask1 = mask_of FASTQ1_SUFFIX listing in
      if sum_mask mask1 \<noteq> 0 then
        (let mask2 = mask_of FASTQ2_SUFFIX listing in
         if sum_mask mask2 \<noteq> 0 then
           (if sum_mask mask1 \<noteq> sum_mask mask2
            then Inl (AssertionError ''Not all input files have pairs'')
            else
              (case stubs FASTQ1_SUFFIX (FASTQ1S DATADIR listing) of
                 Inl e \<Rightarrow> Inl e
               | Inr fq1_stubs \<Rightarrow>
                  (case stubs FASTQ2_SUFFIX (fastq2s DATADIR listing) of
                     Inl e \<Rightarrow> Inl e
                   | Inr fq2_stubs \<Rightarrow>
                       if sort fq1_stubs = sort fq2_stubs then Inr True
                       else Inl (AssertionError
                         ''First and second read pair files do not correspond''))))
         else Inr False)
      else Inl (ValueError ''No input files detected''))"

definition dir_prefix :: "string \<Rightarrow> string" where
  \<comment> \<open>what \<^verbatim>\<open>os.path.join(a, b)\<close> puts before a relative \<^verbatim>\<open>b\<close>\<close>
  "dir_prefix a = (if a = [] \<or> last a = CHR ''/'' then a else a @ ''/'')"

section \<open>Pass-through links: \<^verbatim>\<open>symlnk\<close> and \<^verbatim>\<open>removeDuplicates\<close>\<close>

text \<open>
  The part of the file system the code touches: a path holds a file (its decompressed
  lines) or a symbolic link (its target). \<^verbatim>\<open>os.symlink\<close> fails with errno
  \<^verbatim>\<open>EEXIST\<close> when the link path exists; the directories of the pipeline exist and are
  writable (the \<^verbatim>\<open>mkdir\<close> decorators), so no other failure of it is modelled.
\<close>

datatype node = File "string list" | Symlink string

type_synonym filesystem = "string \<Rightarrow> node option"

definition EEXIST :: nat where
  "EEXIST = 17"

definition ENOENT :: nat where
  "ENOENT = 2"

definition os_symlink :: "filesystem \<Rightarrow> string \<Rightarrow> string \<Rightarrow> error + filesystem" where
  "os_symlink fs src dst =
     (if fs dst \<noteq> None then Inl (OSError EEXIST) else Inr (fs(dst \<mapsto> Symlink src)))"

definition os_remove :: "filesystem \<Rightarrow> string \<Rightarrow> error + filesystem" where
  "os_remove fs path =
     (if fs path = None then Inl (OSError ENOENT) else Inr (fs(path := None)))"

text \<open>
  The global names of the module: those bound by its \<^verbatim>\<open>import\<close> statements (lines 39 to
  50; of the names \<^verbatim>\<open>from ruffus import *\<close> binds, the ones the file uses), its
  module-level variables and its functions. A name that is not among them raises
  \<^verbatim>\<open>NameError\<close> when it is evaluated.
\<close>

definition module_globals :: "string list" where
  "module_globals =
     [''follows'', ''mkdir'', ''transform'', ''regex'', ''collate'', ''merge'',
      ''P'', ''IOTools'', ''E'', ''Fastq'',
      ''os'', ''sys'', ''re'', ''sqlite3'', ''itertools'', ''distutils'', ''pd'',
      ''PARAMS'', ''DATADIR'', ''FASTQ1_SUFFIX'', ''FASTQ2_SUFFIX'',
      ''fq1_regex'', ''mask1'', ''FASTQ1S'', ''fq2_regex'', ''mask2'', ''fastq2s'',
      ''IS_PAIRED'', ''fq1_stubs'', ''fq2_stubs'',
      ''connect'', ''tool_exists'', ''symlnk'', ''removeDuplicates'', ''removeAdapters'',
      ''removeHostContamination'', ''maskLowComplexity'', ''countInputReads'',
      ''countOutputReads'', ''collateReadCounts'', ''summarizeReadCounts'', ''main'']"

text \<open>
  \<^verbatim>\<open>symlnk\<close>, lines 121 to 127 (\<open>infl\<close> is the source's \<^verbatim>\<open>inf\<close>).
  \<^verbatim>\<open>os.path.abspath\<close> is a parameter. The handler of
  \<^verbatim>\<open>OSError\<close> first evaluates \<^verbatim>\<open>errno.EEXIST\<close>; when it can, it replaces an existing
  link and swallows every other \<^verbatim>\<open>OSError\<close>.
\<close>

definition symlnk ::
  "(string \<Rightarrow> string) \<Rightarrow> filesystem \<Rightarrow> string \<Rightarrow> string \<Rightarrow> error + filesystem"
where
  "symlnk abspath fs infl outf =
     (case os_symlink fs (abspath infl) outf of
        Inr fs' \<Rightarrow> Inr fs'
      | Inl (OSError e) \<Rightarrow>
          if ''errno'' \<notin> set module_globals then Inl (NameError ''errno'')
          else if e = EEXIST then
            (case os_remove fs outf of
               Inl x \<Rightarrow> Inl x
             | Inr fs' \<Rightarrow> os_symlink fs' infl outf)
          else Inr fs
      | Inl x \<Rightarrow> Inl x)"

definition snip :: "string \<Rightarrow> string \<Rightarrow> error + string" where
  \<comment> \<open>\<^verbatim>\<open>P.snip(filename, extension)\<close>: the name without the extension it must end in\<close>
  "snip filename extension =
     (if length extension \<le> length filename \<and>
         drop (length filename - length extension) filename = extension
      then Inr (take (length filename - length extension) filename)
      else Inl (ValueError ''snip''))"

record params =
  cdhit_dedup :: bool
  preprocess_dedup :: bool
  bmtagger_keep_pairs :: bool
  bmtagger_bitmask :: string
  bmtagger_srprism :: string

text \<open>
  \<^verbatim>\<open>removeDuplicates\<close>, lines 137 to 192. The statement handed to \<^verbatim>\<open>P.run\<close> is an
  external command: \<open>run\<close> takes the tool and the file names substituted into the
  statement and gives the new file system, or \<open>None\<close> when the statement exits non-zero.
\<close>

definition removeDuplicates ::
  "(string \<Rightarrow> string list \<Rightarrow> filesystem \<Rightarrow> filesystem option) \<Rightarrow> (string \<Rightarrow> string) \<Rightarrow>
   params \<Rightarrow> bool \<Rightarrow> filesystem \<Rightarrow> string \<Rightarrow> string \<Rightarrow> error + filesystem"
where
  "removeDuplicates run abspath PARAMS is_paired fs fastq1 outfile =
     (if is_paired then
        (case snip fastq1 FASTQ1_SUFFIX of Inl e \<Rightarrow> Inl e | Inr stem \<Rightarrow>
        (case snip outfile ''.gz'' of Inl e \<Rightarrow> Inl e | Inr outfile1 \<Rightarrow>
        (case snip outfile1 ''.fastq.1'' of Inl e \<Rightarrow> Inl e | Inr stem1 \<Rightarrow>
        (case snip outfile1 ''1'' of Inl e \<Rightarrow> Inl e | Inr stem2 \<Rightarrow>
           (let fastq2 = stem @ FASTQ2_SUFFIX;
                outfile2 = stem1 @ ''.fastq.2'';
                logfile = stem1 @ ''.log'';
                cluster_file = stem2 @ ''*.clstr''
            in if cdhit_dedup PARAMS then
                 (case run ''cd-hit-dup''
                         [fastq1, fastq2, outfile1, outfile2, logfile, cluster_file] fs of
                    None \<Rightarrow> Inl (RunError ''cd-hit-dup'')
                  | Some fs' \<Rightarrow> Inr fs')
               else
                 (case symlnk abspath fs fastq1 outfile of
                    Inl e \<Rightarrow> Inl e
                  | Inr fs' \<Rightarrow> symlnk abspath fs' fastq2 outfile2))))))
      else
        (case snip outfile ''.gz'' of Inl e \<Rightarrow> Inl e | Inr outfile1 \<Rightarrow>
        (case snip outfile1 ''.fastq.1'' of Inl e \<Rightarrow> Inl e | Inr stem1 \<Rightarrow>
        (case snip outfile1 ''1'' of Inl e \<Rightarrow> Inl e | Inr stem2 \<Rightarrow>
           (let logfile = stem1 @ ''.log'';
                cluster_file = stem2 @ ''*.clstr''
            in if preprocess_dedup PARAMS then
                 (case run ''cd-hit-dup'' [fastq1, outfile1, logfile, cluster_file] fs of
                    None \<Rightarrow> Inl (RunError ''cd-hit-dup'')
                  | Some fs' \<Rightarrow> Inr fs')
               else symlnk abspath fs fastq1 outfile)))))"

section \<open>Host removal: \<^verbatim>\<open>removeHostContamination\<close>\<close>

record fastq_read =
  read_id :: string
  bases :: string
  quals :: string

fun py_split :: "char \<Rightarrow> string \<Rightarrow> string list" where
  \<comment> \<open>\<^verbatim>\<open>s.split(sep)\<close> for a separator of one character\<close>
  "py_split sep [] = [[]]"
| "py_split sep (c # cs) =
     (if c = sep then [] # py_split sep cs
      else (case py_split sep cs of [] \<Rightarrow> [[c]] | w # ws \<Rightarrow> (c # w) # ws))"

definition reference_indexes :: "params \<Rightarrow> (string \<times> string) list" where
  \<comment> \<open>lines 298 and 299: \<^verbatim>\<open>zip\<close> stops at the shorter list\<close>
  "reference_indexes PARAMS =
     zip (py_split CHR '','' (bmtagger_bitmask PARAMS))
         (py_split CHR '','' (bmtagger_srprism PARAMS))"

text \<open>
  The loop of lines 300 to 352, for a paired sample. \<^verbatim>\<open>bmtagger.sh\<close> is external:
  \<open>pe bitmask srprism fastq1 fastq2\<close> and \<open>se bitmask srprism fastq3\<close> give the
  identifiers the tool writes to its output file, or \<open>None\<close> when the statement exits
  non-zero (\<^verbatim>\<open>P.run\<close> raises). The two temporary files \<^verbatim>\<open>to_remove_paired\<close> and
  \<^verbatim>\<open>to_remove_singletons\<close> start empty and are appended to (\<^verbatim>\<open>cat ... >>\<close>). The
  third read file is \<open>None\<close> when it does not exist: \<^verbatim>\<open>IOTools.openFile\<close> raises before
  the statement of that round is run. \<^verbatim>\<open>read(1)\<close> is empty exactly when the file holds
  no read.
\<close>

fun screen_loop ::
  "(string \<Rightarrow> string \<Rightarrow> fastq_read list \<Rightarrow> fastq_read list \<Rightarrow> string list option) \<Rightarrow>
   (string \<Rightarrow> string \<Rightarrow> fastq_read list \<Rightarrow> string list option) \<Rightarrow>
   fastq_read list \<Rightarrow> fastq_read list \<Rightarrow> fastq_read list option \<Rightarrow>
   (string \<times> string) list \<Rightarrow> string list \<times> string list \<Rightarrow>
   error + string list \<times> string list"
where
  "screen_loop pe se fastq1 fastq2 fastq3 [] acc = Inr acc"
| "screen_loop pe se fastq1 fastq2 fastq3 ((bitmask, srprism) # indexes)
     (to_remove_paired, to_remove_singletons) =
     (case fastq3 of
        None \<Rightarrow> Inl (IOError ''fastq3'')
      | Some reads3 \<Rightarrow>
          (case pe bitmask srprism fastq1 fastq2 of
             None \<Rightarrow> Inl (RunError ''bmtagger.sh'')
           | Some flagged \<Rightarrow>
               if reads3 \<noteq> [] then
                 (case se bitmask srprism reads3 of
                    None \<Rightarrow> Inl (RunError ''bmtagger.sh'')
                  | Some flagged3 \<Rightarrow>
                      screen_loop pe se fastq1 fastq2 fastq3 indexes
                        (to_remove_paired @ flagged, to_remove_singletons @ flagged3))
               else
                 screen_loop pe se fastq1 fastq2 fastq3 indexes
                   (to_remove_paired @ flagged, to_remove_singletons)))"

text \<open>
  The arguments of the drop script (lines 367 to 379): the three read files and the two
  lists of identifiers. The six output paths are fixed by the name of the output file.
\<close>

record drop_args =
  arg_fastq1 :: "fastq_read list"
  arg_fastq2 :: "fastq_read list"
  arg_fastq3 :: "fastq_read list"
  to_drop_paired :: "string list"
  to_drop_single :: "string list"

fun unpaired_loop ::
  "(string \<Rightarrow> string \<Rightarrow> fastq_read list \<Rightarrow> bool) \<Rightarrow> fastq_read list \<Rightarrow>
   (string \<times> string) list \<Rightarrow> error + unit"
where
  \<comment> \<open>lines 392 to 411: one statement per index; \<open>run1\<close> says whether it exits with zero\<close>
  "unpaired_loop run1 fastq1 [] = Inr ()"
| "unpaired_loop run1 fastq1 ((bitmask, srprism) # indexes) =
     (if run1 bitmask srprism fastq1 then unpaired_loop run1 fastq1 indexes
      else Inl (RunError ''bmtagger.sh''))"

definition keep_pairs_info :: "bool \<Rightarrow> string" where
  \<comment> \<open>the message of \<^verbatim>\<open>E.info\<close>, lines 279 to 287\<close>
  "keep_pairs_info keep_pairs =
     (if keep_pairs
      then ''BMTagger: reads with a pair identified as host will be discarded''
      else ''BMTagger: reads with a pair identified as host will be kept as singletons (assuming they are not also identified as host)'')"

text \<open>
  \<^verbatim>\<open>removeHostContamination\<close>, lines 272 to 428. The drop script is external to this
  function: \<open>drop_script\<close> takes the arguments of its command line and gives what it writes, or
  \<open>None\<close> when it exits non-zero. The result is the message logged and the outcome. In
  the branch for unpaired input, line 415 evaluates \<^verbatim>\<open>ps.path.join\<close>, and \<^verbatim>\<open>ps\<close> is not a
  name of the module.
\<close>

definition removeHostContamination ::
  "(string \<Rightarrow> string \<Rightarrow> fastq_read list \<Rightarrow> fastq_read list \<Rightarrow> string list option) \<Rightarrow>
   (string \<Rightarrow> string \<Rightarrow> fastq_read list \<Rightarrow> string list option) \<Rightarrow>
   (drop_args \<Rightarrow> 'o option) \<Rightarrow>
   (string \<Rightarrow> string \<Rightarrow> fastq_read list \<Rightarrow> bool) \<Rightarrow>
   params \<Rightarrow> bool \<Rightarrow> fastq_read list \<Rightarrow> fastq_read list \<Rightarrow> fastq_read list option \<Rightarrow>
   string \<times> (error + 'o)"
where
  "removeHostContamination pe se drop_script run1 PARAMS is_paired fastq1 fastq2 fastq3 =
     (let keep_pairs = bmtagger_keep_pairs PARAMS;
          info = keep_pairs_info keep_pairs;
          indexes = reference_indexes PARAMS
      in (info,
          if is_paired then
            (case screen_loop pe se fastq1 fastq2 fastq3 indexes ([], []) of
               Inl e \<Rightarrow> Inl e
             | Inr (to_remove_paired, to_remove_singletons) \<Rightarrow>
                 (case fastq3 of
                    None \<Rightarrow> Inl (RunError ''drop_fastqs.py'')
                  | Some reads3 \<Rightarrow>
                      (case drop_script
                              \<lparr> arg_fastq1 = fastq1, arg_fastq2 = fastq2,
                                arg_fastq3 = reads3,
                                to_drop_paired = to_remove_paired,
                                to_drop_single = to_remove_singletons \<rparr> of
                         None \<Rightarrow> Inl (RunError ''drop_fastqs.py'')
                       | Some out \<Rightarrow> Inr out)))
          else
            (case unpaired_loop run1 fastq1 indexes of
               Inl e \<Rightarrow> Inl e
             | Inr u \<Rightarrow> Inl (NameError ''ps''))))"

text \<open>
  Modelled from the spec: \<^verbatim>\<open>drop_fastqs.py\<close>, the script of this repository that
  \<^verbatim>\<open>removeHostContamination\<close> runs, is not among the source files. The spec (4.3, step 3)
  says: a read pair goes to the host output if its identifier is in \<open>paired_flagged\<close>,
  otherwise to the clean paired output; a singleton goes to the host output if its
  identifier is in \<open>singleton_flagged\<close>, otherwise to the clean singleton output; an
  identifier of the first mate file that is absent from the second signals
  \<open>CorruptPairingError\<close> (the script fails: \<open>None\<close>). Both mate files carry the
  identifier of the pair, so each is split by it.
\<close>

record drop_out =
  fastq_out1 :: "fastq_read list"
  fastq_out2 :: "fastq_read list"
  fastq_out3 :: "fastq_read list"
  fastq_drop1 :: "fastq_read list"
  fastq_drop2 :: "fastq_read list"
  fastq_drop3 :: "fastq_read list"

definition drop_fastqs :: "drop_args \<Rightarrow> drop_out option" where
  "drop_fastqs args =
     (if \<not> set (map read_id (arg_fastq1 args)) \<subseteq> set (map read_id (arg_fastq2 args))
      then None
      else Some
        \<lparr> fastq_out1 = filter (\<lambda>r. read_id r \<notin> set (to_drop_paired args)) (arg_fastq1 args),
          fastq_out2 = filter (\<lambda>r. read_id r \<notin> set (to_drop_paired args)) (arg_fastq2 args),
          fastq_out3 = filter (\<lambda>r. read_id r \<notin> set (to_drop_single args)) (arg_fastq3 args),
          fastq_drop1 = filter (\<lambda>r. read_id r \<in> set (to_drop_paired args)) (arg_fastq1 args),
          fastq_drop2 = filter (\<lambda>r. read_id r \<in> set (to_drop_paired args)) (arg_fastq2 args),
          fastq_drop3 = filter (\<lambda>r. read_id r \<in> set (to_drop_single args)) (arg_fastq3 args) \<rparr>)"

text \<open>
  For the statements about the loop: the identifier \<open>i\<close> is in what the screening of
  at least one index returned.
\<close>

definition flagged_by ::
  "(string \<times> string) list \<Rightarrow> (string \<Rightarrow> string \<Rightarrow> string list option) \<Rightarrow> string \<Rightarrow> bool"
where
  "flagged_by indexes screen i =
     (\<exists>(bitmask, srprism)\<in>set indexes. \<exists>ids. screen bitmask srprism = Some ids \<and> i \<in> set ids)"

section \<open>Read counts: \<^verbatim>\<open>countInputReads\<close> and \<^verbatim>\<open>countOutputReads\<close>\<close>

subsection \<open>The number written by awk\<close>

text \<open>
  Both functions run \<^verbatim>\<open>zcat infile | awk '{n+=1;} END {printf(n/4);}' > outfile\<close>. \<open>zcat\<close>
  gives the decompressed lines of a path, or \<open>None\<close> for a path that cannot be read.
  \<^verbatim>\<open>n/4\<close> is used as the format string, so awk first turns the number into text: an
  integral value is written as an integer, any other value with \<^verbatim>\<open>%.6g\<close>, that is
  rounded to six significant digits (ties to even on the exact value). The model gives the
  number that text denotes. A value that is not integral is a positive multiple of 1/4
  here, so at least 1/10.
\<close>

function digits10 :: "int \<Rightarrow> int" where
  \<comment> \<open>the number of decimal digits of a positive integer\<close>
  "digits10 n = (if n < 10 then 1 else 1 + digits10 (n div 10))"
  by pat_completeness auto
termination
  by (relation "measure nat") auto

declare digits10.simps [simp del]

definition round_sig6 :: "rat \<Rightarrow> rat" where
  "round_sig6 x =
     (let e = (if 1 \<le> x then digits10 \<lfloor>x\<rfloor> - 1 else - 1)
      in if 5 \<le> e then of_int (rint (x / 10 ^ nat (e - 5))) * 10 ^ nat (e - 5)
         else of_int (rint (x * 10 ^ nat (5 - e))) / 10 ^ nat (5 - e))"

definition awk_nreads :: "string list \<Rightarrow> rat" where
  "awk_nreads lines =
     (let n = int (length lines)
      in if n mod 4 = 0 then of_int (n div 4) else round_sig6 (of_int n / 4))"

definition countInputReads :: "(string \<Rightarrow> string list option) \<Rightarrow> string \<Rightarrow> rat option" where
  "countInputReads zcat infile = map_option awk_nreads (zcat infile)"

definition countOutputReads :: "(string \<Rightarrow> string list option) \<Rightarrow> string \<Rightarrow> rat option" where
  "countOutputReads zcat infile = map_option awk_nreads (zcat infile)"


subsection \<open>The files the decorators hand to the two functions\<close>














section \<open>Properties of the accounting aggregator\<close>

lemma summarize_sample_Inl:
  "summarize_sample sid df = Inl e \<Longrightarrow>
     (map_of df ''deadapt'' = None \<and> e = KeyError ''deadapt'') \<or>
     (map_of df ''deduped'' = None \<and> e = KeyError ''deduped'') \<or>
     (map_of df ''dehost'' = None \<and> e = KeyError ''dehost'') \<or>
     (map_of df ''masked'' = None \<and> e = KeyError ''masked'') \<or>
     (map_of df ''input'' = None \<and> e = KeyError ''input'')"
  unfolding summarize_sample_def df_loc_def
  by (simp split: option.splits)

lemma summarize_sample_Inr:
  "summarize_sample sid df = Inr row \<longleftrightarrow>
     (\<exists>i d a h m. map_of df ''input'' = Some i \<and> map_of df ''deduped'' = Some d \<and>
        map_of df ''deadapt'' = Some a \<and> map_of df ''dehost'' = Some h \<and>
        map_of df ''masked'' = Some m \<and> row = make_row sid i d a h m)"
  unfolding summarize_sample_def df_loc_def
  by (auto split: option.splits)

lemma summarize_loop_rows:
  "row \<in> set (fst (summarize_loop infiles written)) \<Longrightarrow>
     row \<in> set written \<or> (\<exists>(sid, df)\<in>set infiles. summarize_sample sid df = Inr row)"
proof (induction infiles arbitrary: written)
  case Nil
  then show ?case by simp
next
  case (Cons x infiles)
  obtain sid df where x: "x = (sid, df)" by (cases x)
  show ?case
  proof (cases "summarize_sample sid df")
    case (Inl e)
    with Cons.prems x show ?thesis by simp
  next
    case (Inr r)
    with Cons.prems x have "row \<in> set (fst (summarize_loop infiles (written @ [r])))"
      by simp
    from Cons.IH [OF this] Inr x show ?thesis by auto
  qed
qed

lemma emitted_row_origin:
  assumes "row \<in> set (fst (summarizeReadCounts infiles))"
  obtains sid df i d a h m where
    "(sid, df) \<in> set infiles"
    "map_of df ''input'' = Some i" "map_of df ''deduped'' = Some d"
    "map_of df ''deadapt'' = Some a" "map_of df ''dehost'' = Some h"
    "map_of df ''masked'' = Some m" "row = make_row sid i d a h m"
proof -
  from assms have "\<exists>(sid, df)\<in>set infiles. summarize_sample sid df = Inr row"
    using summarize_loop_rows [of row infiles "[]"] by (simp add: summarizeReadCounts_def)
  then obtain sid df where "(sid, df) \<in> set infiles" "summarize_sample sid df = Inr row"
    by auto
  with that show thesis
    unfolding summarize_sample_Inr by blast
qed

lemma percent_of_50_1000: "percent_of 50 1000 = Finite 5"
  by code_simp

lemma percent_of_800_1000: "percent_of 800 1000 = Finite 80"
  by code_simp

text \<open>
  C1. Every row the aggregator writes comes from one sample's table, its input and output
  counts are the \<^verbatim>\<open>input\<close> and \<^verbatim>\<open>masked\<close> counts read from that table, and the four
  losses plus the output count equal the input count. The identity is one of integers: the
  percentages play no part in it. (The counts are line counts, so non-negative 64-bit
  values; their differences do not wrap.)
\<close>

theorem accounting_round_trip:
  assumes "row \<in> set (fst (summarizeReadCounts infiles))"
  shows "\<exists>sid df. (sid, df) \<in> set infiles \<and>
           map_of df ''input'' = Some (input_reads row) \<and>
           map_of df ''masked'' = Some (output_reads row) \<and>
           duplicates row + adapter_contamination row + host row + low_complexity row
             + output_reads row = input_reads row"
proof -
  from assms obtain sid df i d a h m where
    "(sid, df) \<in> set infiles" "map_of df ''input'' = Some i"
    "map_of df ''masked'' = Some m" "row = make_row sid i d a h m"
    by (rule emitted_row_origin)
  then show ?thesis
    by (auto simp: make_row_def Let_def)
qed

theorem accounting_round_trip_witness:
  "make_row ''S2'' 8 7 5 4 2 \<in> set (fst (summarizeReadCounts
       [(''S2'', [(''input'', 8), (''deduped'', 7), (''deadapt'', 5), (''dehost'', 4),
                  (''masked'', 2)])])) \<and>
   duplicates (make_row ''S2'' 8 7 5 4 2) + adapter_contamination (make_row ''S2'' 8 7 5 4 2)
     + host (make_row ''S2'' 8 7 5 4 2) + low_complexity (make_row ''S2'' 8 7 5 4 2)
     + output_reads (make_row ''S2'' 8 7 5 4 2) = input_reads (make_row ''S2'' 8 7 5 4 2)"
proof -
  have h: "make_row ''S2'' 8 7 5 4 2 \<in> set (fst (summarizeReadCounts
       [(''S2'', [(''input'', 8), (''deduped'', 7), (''deadapt'', 5), (''dehost'', 4),
                  (''masked'', 2)])]))"
    by (simp add: summarizeReadCounts_def summarize_sample_def df_loc_def)
  from accounting_round_trip [OF h] h show ?thesis by blast
qed

text \<open>
  C7. The sample \<^verbatim>\<open>S1\<close> with input 1000, deduped 950, deadapt 900, dehost 850 and
  masked 800 gives the row with four losses of 50, each 5.0 percent, and 80.0 percent
  remaining.
\<close>

theorem summarize_S1:
  "summarizeReadCounts
     [(''S1'', [(''input'', 1000), (''deduped'', 950), (''deadapt'', 900),
                (''dehost'', 850), (''masked'', 800)])] =
     ([\<lparr> sample_id = ''S1'', input_reads = 1000, output_reads = 800,
         duplicates = 50, adapter_contamination = 50, host = 50, low_complexity = 50,
         duplicates_percent = Finite 5, adapters_percent = Finite 5,
         host_percent = Finite 5, low_complexity_perc = Finite 5,
         remaining_percent = Finite 80 \<rparr>], None)"
  by (simp add: summarizeReadCounts_def summarize_sample_def df_loc_def make_row_def
        percent_of_50_1000 percent_of_800_1000)

lemma sample_id_make_row: "sample_id (make_row sid i d a h m) = sid"
  by (simp add: make_row_def Let_def)

lemma summarize_loop_complete_prefix:
  assumes "\<forall>(sid, df)\<in>set pre. \<exists>row. summarize_sample sid df = Inr row"
  shows "\<exists>rows. map sample_id rows = map fst pre \<and>
           summarize_loop (pre @ rest) written = summarize_loop rest (written @ rows)"
  using assms
proof (induction pre arbitrary: written)
  case Nil
  then show ?case by simp
next
  case (Cons x pre)
  obtain sid df where x: "x = (sid, df)" by (cases x)
  from Cons.prems x obtain row where row: "summarize_sample sid df = Inr row" by auto
  then have sid: "sample_id row = sid"
    unfolding summarize_sample_Inr by (auto simp: sample_id_make_row)
  from Cons.prems have "\<forall>(sid, df)\<in>set pre. \<exists>row. summarize_sample sid df = Inr row"
    by simp
  from Cons.IH [OF this, of "written @ [row]"] obtain rows where
    "map sample_id rows = map fst pre"
    "summarize_loop (pre @ rest) (written @ [row]) = summarize_loop rest ((written @ [row]) @ rows)"
    by blast
  with x row sid show ?case
    by (intro exI [of _ "row # rows"]) simp
qed

lemma complete_sample_row:
  assumes "\<forall>k\<in>set required_steps. map_of df k \<noteq> None"
  shows "\<exists>row. summarize_sample sid df = Inr row"
proof (cases "summarize_sample sid df")
  case (Inl e)
  from summarize_sample_Inl [OF this] assms show ?thesis
    by (auto simp: required_steps_def)
next
  case (Inr row)
  then show ?thesis by blast
qed

lemma incomplete_sample_error:
  assumes "k \<in> set required_steps" "map_of df k = None"
  shows "\<exists>k'. summarize_sample sid df = Inl (KeyError k') \<and> k' \<in> set required_steps \<and>
           map_of df k' = None"
proof (cases "summarize_sample sid df")
  case (Inl e)
  from summarize_sample_Inl [OF this] Inl show ?thesis
    by (auto simp: required_steps_def)
next
  case (Inr row)
  with assms show ?thesis
    unfolding summarize_sample_Inr by (auto simp: required_steps_def)
qed

lemma nreads_counts_lookup:
  "nreads_counts df \<Longrightarrow> map_of df k = Some v \<Longrightarrow> 0 \<le> v \<and> v < 2 ^ 63"
  unfolding nreads_counts_def by (auto dest: map_of_SomeD)

text \<open>
  C2. The aggregator performs no check on the counts: a table whose \<^verbatim>\<open>deduped\<close> count
  exceeds its \<^verbatim>\<open>input\<close> count gives a row with a negative loss, and no error.
\<close>

theorem negative_loss_emitted:
  "snd (summarizeReadCounts
     [(''S1'', [(''input'', 10), (''deduped'', 12), (''deadapt'', 9), (''dehost'', 8),
                (''masked'', 7)])]) = None \<and>
   map duplicates (fst (summarizeReadCounts
     [(''S1'', [(''input'', 10), (''deduped'', 12), (''deadapt'', 9), (''dehost'', 8),
                (''masked'', 7)])])) = [- 2]"
  by (simp add: summarizeReadCounts_def summarize_sample_def df_loc_def make_row_def)

text \<open>
  C2, as the code has it. Take tables of read counts (\<open>nreads_counts\<close>: every label
  once, every count an integer from 0 up to \<open>2 ^ 63\<close>) that hold the five steps. The
  aggregator then writes one row for every sample, in order, and raises nothing, whatever
  the counts are: it checks none of them. In every row each loss is the difference of the
  two neighbouring counts, without wrap-around, and the output count is not negative. The
  four losses are all non-negative exactly when the counts do not increase from one step
  to the next; the output count is then at most the input count.
\<close>

theorem losses_nonneg_iff_counts_decrease:
  assumes "\<forall>(sid, df)\<in>set infiles.
             nreads_counts df \<and> (\<forall>k\<in>set required_steps. map_of df k \<noteq> None)"
  shows "\<exists>rows. summarizeReadCounts infiles = (rows, None) \<and>
           map sample_id rows = map fst infiles \<and>
           (\<forall>row\<in>set rows. \<exists>sid df i d a h m. (sid, df) \<in> set infiles \<and>
              map_of df ''input'' = Some i \<and> map_of df ''deduped'' = Some d \<and>
              map_of df ''deadapt'' = Some a \<and> map_of df ''dehost'' = Some h \<and>
              map_of df ''masked'' = Some m \<and>
              sample_id row = sid \<and> input_reads row = i \<and> output_reads row = m \<and>
              duplicates row = i - d \<and> adapter_contamination row = d - a \<and>
              host row = a - h \<and> low_complexity row = h - m \<and>
              - (2 ^ 63) < duplicates row \<and> duplicates row < 2 ^ 63 \<and>
              - (2 ^ 63) < adapter_contamination row \<and> adapter_contamination row < 2 ^ 63 \<and>
              - (2 ^ 63) < host row \<and> host row < 2 ^ 63 \<and>
              - (2 ^ 63) < low_complexity row \<and> low_complexity row < 2 ^ 63 \<and>
              0 \<le> output_reads row \<and>
              ((0 \<le> duplicates row \<and> 0 \<le> adapter_contamination row \<and> 0 \<le> host row \<and>
                0 \<le> low_complexity row) =
               (d \<le> i \<and> a \<le> d \<and> h \<le> a \<and> m \<le> h)) \<and>
              ((d \<le> i \<and> a \<le> d \<and> h \<le> a \<and> m \<le> h) \<longrightarrow>
                 output_reads row \<le> input_reads row))"
proof -
  have "\<exists>row. summarize_sample sid df = Inr row" if "(sid, df) \<in> set infiles" for sid df
  proof -
    from assms that have "\<forall>k\<in>set required_steps. map_of df k \<noteq> None" by blast
    then show ?thesis by (rule complete_sample_row)
  qed
  then have "\<forall>(sid, df)\<in>set infiles. \<exists>row. summarize_sample sid df = Inr row"
    by auto
  from summarize_loop_complete_prefix [OF this, of "[]" "[]"]
  obtain rows where rows: "map sample_id rows = map fst infiles"
    "summarizeReadCounts infiles = (rows, None)"
    by (auto simp: summarizeReadCounts_def)
  have "\<exists>sid df i d a h m. (sid, df) \<in> set infiles \<and>
              map_of df ''input'' = Some i \<and> map_of df ''deduped'' = Some d \<and>
              map_of df ''deadapt'' = Some a \<and> map_of df ''dehost'' = Some h \<and>
              map_of df ''masked'' = Some m \<and>
              sample_id row = sid \<and> input_reads row = i \<and> output_reads row = m \<and>
              duplicates row = i - d \<and> adapter_contamination row = d - a \<and>
              host row = a - h \<and> low_complexity row = h - m \<and>
              - (2 ^ 63) < duplicates row \<and> duplicates row < 2 ^ 63 \<and>
              - (2 ^ 63) < adapter_contamination row \<and> adapter_contamination row < 2 ^ 63 \<and>
              - (2 ^ 63) < host row \<and> host row < 2 ^ 63 \<and>
              - (2 ^ 63) < low_complexity row \<and> low_complexity row < 2 ^ 63 \<and>
              0 \<le> output_reads row \<and>
              ((0 \<le> duplicates row \<and> 0 \<le> adapter_contamination row \<and> 0 \<le> host row \<and>
                0 \<le> low_complexity row) =
               (d \<le> i \<and> a \<le> d \<and> h \<le> a \<and> m \<le> h)) \<and>
              ((d \<le> i \<and> a \<le> d \<and> h \<le> a \<and> m \<le> h) \<longrightarrow>
                 output_reads row \<le> input_reads row)"
    if "row \<in> set rows" for row
  proof -
    from that rows(2) have "row \<in> set (fst (summarizeReadCounts infiles))" by simp
    then obtain sid df i d a h m where o:
      "(sid, df) \<in> set infiles"
      "map_of df ''input'' = Some i" "map_of df ''deduped'' = Some d"
      "map_of df ''deadapt'' = Some a" "map_of df ''dehost'' = Some h"
      "map_of df ''masked'' = Some m" "row = make_row sid i d a h m"
      by (rule emitted_row_origin)
    from assms o(1) have nc: "nreads_counts df" by auto
    note b = nreads_counts_lookup [OF nc o(2)] nreads_counts_lookup [OF nc o(3)]
      nreads_counts_lookup [OF nc o(4)] nreads_counts_lookup [OF nc o(5)]
      nreads_counts_lookup [OF nc o(6)]
    have f: "sample_id row = sid" "input_reads row = i" "output_reads row = m"
      "duplicates row = i - d" "adapter_contamination row = d - a" "host row = a - h"
      "low_complexity row = h - m"
      using o(7) by (simp_all add: make_row_def Let_def)
    have "(sid, df) \<in> set infiles \<and>
              map_of df ''input'' = Some i \<and> map_of df ''deduped'' = Some d \<and>
              map_of df ''deadapt'' = Some a \<and> map_of df ''dehost'' = Some h \<and>
              map_of df ''masked'' = Some m \<and>
              sample_id row = sid \<and> input_reads row = i \<and> output_reads row = m \<and>
              duplicates row = i - d \<and> adapter_contamination row = d - a \<and>
              host row = a - h \<and> low_complexity row = h - m \<and>
              - (2 ^ 63) < duplicates row \<and> duplicates row < 2 ^ 63 \<and>
              - (2 ^ 63) < adapter_contamination row \<and> adapter_contamination row < 2 ^ 63 \<and>
              - (2 ^ 63) < host row \<and> host row < 2 ^ 63 \<and>
              - (2 ^ 63) < low_complexity row \<and> low_complexity row < 2 ^ 63 \<and>
              0 \<le> output_reads row \<and>
              ((0 \<le> duplicates row \<and> 0 \<le> adapter_contamination row \<and> 0 \<le> host row \<and>
                0 \<le> low_complexity row) =
               (d \<le> i \<and> a \<le> d \<and> h \<le> a \<and> m \<le> h)) \<and>
              ((d \<le> i \<and> a \<le> d \<and> h \<le> a \<and> m \<le> h) \<longrightarrow>
                 output_reads row \<le> input_reads row)"
      unfolding f using o(1-6) b by auto
    then show ?thesis by (intro exI)
  qed
  with rows show ?thesis by blast
qed

theorem losses_nonneg_iff_counts_decrease_witness:
  "summarizeReadCounts
     [(''S2'', [(''input'', 8), (''deduped'', 7), (''deadapt'', 5), (''dehost'', 4),
                (''masked'', 2)]),
      (''S3'', [(''input'', 10), (''deduped'', 12), (''deadapt'', 9), (''dehost'', 8),
                (''masked'', 7)])] =
     ([make_row ''S2'' 8 7 5 4 2, make_row ''S3'' 10 12 9 8 7], None) \<and>
   nreads_counts [(''input'', 10), (''deduped'', 12), (''deadapt'', 9), (''dehost'', 8),
                (''masked'', 7)] \<and>
   duplicates (make_row ''S3'' 10 12 9 8 7) = - 2 \<and>
   output_reads (make_row ''S2'' 8 7 5 4 2) \<le> input_reads (make_row ''S2'' 8 7 5 4 2)"
proof -
  let ?t2 = "[(''input'', 8), (''deduped'', 7), (''deadapt'', 5), (''dehost'', 4),
                (''masked'', 2 :: int)]"
  let ?t3 = "[(''input'', 10), (''deduped'', 12), (''deadapt'', 9), (''dehost'', 8),
                (''masked'', 7 :: int)]"
  have h: "\<forall>(sid, df)\<in>set [(''S2'', ?t2), (''S3'', ?t3)].
             nreads_counts df \<and> (\<forall>k\<in>set required_steps. map_of df k \<noteq> None)"
    by (simp add: nreads_counts_def required_steps_def)
  have r: "summarizeReadCounts [(''S2'', ?t2), (''S3'', ?t3)] =
     ([make_row ''S2'' 8 7 5 4 2, make_row ''S3'' 10 12 9 8 7], None)"
    by (simp add: summarizeReadCounts_def summarize_sample_def df_loc_def)
  from losses_nonneg_iff_counts_decrease [OF h] r h show ?thesis
    by (simp add: make_row_def Let_def)
qed

text \<open>
  C6. A sample whose table lacks a step does not get skipped: the \<^verbatim>\<open>KeyError\<close> leaves the
  loop, and the complete sample after it gets no row.
\<close>

theorem incomplete_sample_aborts_run:
  "fst (summarizeReadCounts
     [(''S1'', [(''input'', 1000), (''deduped'', 950), (''deadapt'', 900)]),
      (''S2'', [(''input'', 8), (''deduped'', 7), (''deadapt'', 5), (''dehost'', 4),
                (''masked'', 2)])]) = [] \<and>
   snd (summarizeReadCounts
     [(''S1'', [(''input'', 1000), (''deduped'', 950), (''deadapt'', 900)]),
      (''S2'', [(''input'', 8), (''deduped'', 7), (''deadapt'', 5), (''dehost'', 4),
                (''masked'', 2)])]) = Some (KeyError ''dehost'')"
  by (simp add: summarizeReadCounts_def summarize_sample_def df_loc_def)

text \<open>
  C6, as the code has it. When the samples before the first incomplete one are all
  complete, the aggregator writes their rows, then raises \<^verbatim>\<open>KeyError\<close> for a step the
  incomplete sample lacks. No row is written for that sample (nothing is zero-filled) nor
  for any sample after it.
\<close>

theorem incomplete_sample_raises_KeyError:
  assumes "\<forall>(s, t)\<in>set pre. \<forall>k\<in>set required_steps. map_of t k \<noteq> None"
    and "k \<in> set required_steps" and "map_of df k = None"
  shows "\<exists>rows k'. summarizeReadCounts (pre @ (sid, df) # post) = (rows, Some (KeyError k')) \<and>
           k' \<in> set required_steps \<and> map_of df k' = None \<and>
           map sample_id rows = map fst pre"
proof -
  from assms(1) have "\<forall>(s, t)\<in>set pre. \<exists>row. summarize_sample s t = Inr row"
    using complete_sample_row by fastforce
  from summarize_loop_complete_prefix [OF this, of "(sid, df) # post" "[]"]
  obtain rows where rows: "map sample_id rows = map fst pre"
    "summarize_loop (pre @ (sid, df) # post) [] = summarize_loop ((sid, df) # post) rows"
    by auto
  from incomplete_sample_error [OF assms(2,3), of sid] obtain k' where
    "summarize_sample sid df = Inl (KeyError k')" "k' \<in> set required_steps" "map_of df k' = None"
    by blast
  with rows show ?thesis
    by (simp add: summarizeReadCounts_def)
qed

theorem incomplete_sample_raises_KeyError_witness:
  "summarizeReadCounts
     ([(''S2'', [(''input'', 8), (''deduped'', 7), (''deadapt'', 5), (''dehost'', 4),
                (''masked'', 2)])] @
      (''S1'', [(''input'', 1000), (''deduped'', 950), (''deadapt'', 900)]) # []) =
     ([make_row ''S2'' 8 7 5 4 2], Some (KeyError ''dehost''))"
proof -
  have a: "\<forall>(s, t)\<in>set [(''S2'', [(''input'', 8 :: int), (''deduped'', 7), (''deadapt'', 5),
      (''dehost'', 4), (''masked'', 2)])]. \<forall>k\<in>set required_steps. map_of t k \<noteq> None"
    by (simp add: required_steps_def)
  have b: "''dehost'' \<in> set required_steps" by (simp add: required_steps_def)
  have c: "map_of [(''input'', 1000 :: int), (''deduped'', 950), (''deadapt'', 900)] ''dehost'' = None"
    by simp
  from incomplete_sample_raises_KeyError [OF a b c, of "''S1''" "[]"] show ?thesis
    by (simp add: summarizeReadCounts_def summarize_sample_def df_loc_def)
qed


section \<open>Properties of the input resolver\<close>

lemma compress_map: "compress xs (map f xs) = filter f xs"
  by (induction xs) (simp_all add: compress_def)

lemma sum_mask_mask_of:
  "sum_mask (mask_of suffix listing) =
     length (filter (\<lambda>x. fq_regex_match suffix x \<noteq> None) listing)"
  by (induction listing) (simp_all add: sum_mask_def mask_of_def)

lemma re_valid_append:
  "re_valid suffix (length p + k) (p @ s) = re_valid suffix k s"
  by (simp add: re_valid_def nth_append)

lemma re_backtrack_append:
  "re_backtrack suffix k s = Some g \<Longrightarrow>
     re_backtrack suffix (length p + k) (p @ s) = Some (p @ g)"
proof (induction k)
  case 0
  then show ?case by simp
next
  case (Suc k)
  show ?case
  proof (cases "re_valid suffix (Suc k) s")
    case True
    with Suc.prems have "g = take (Suc k) s" by simp
    moreover from True have "re_valid suffix (Suc (length p + k)) (p @ s)"
      using re_valid_append [of suffix p "Suc k" s] by simp
    ultimately show ?thesis by simp
  next
    case False
    with Suc.prems have "re_backtrack suffix k s = Some g" by simp
    from Suc.IH [OF this] False show ?thesis
      using re_valid_append [of suffix p "Suc k" s] by simp
  qed
qed

lemma fq_regex_match_append:
  assumes "\<forall>c\<in>set p. \<not> is_space c" and "fq_regex_match suffix s = Some g"
  shows "fq_regex_match suffix (p @ s) = Some (p @ g)"
proof -
  from assms(1) have "takeWhile (\<lambda>c. \<not> is_space c) (p @ s) = p @ takeWhile (\<lambda>c. \<not> is_space c) s"
    by (simp add: takeWhile_append2)
  with re_backtrack_append [of suffix "length (takeWhile (\<lambda>c. \<not> is_space c) s)" s g p] assms(2)
  show ?thesis by (simp add: fq_regex_match_def)
qed

lemma os_path_join_entry:
  "CHR ''/'' \<notin> set b \<Longrightarrow> os_path_join a b = dir_prefix a @ b"
  by (cases b) (auto simp: os_path_join_def dir_prefix_def)

lemma dir_prefix_no_space:
  "\<forall>c\<in>set a. \<not> is_space c \<Longrightarrow> \<forall>c\<in>set (dir_prefix a). \<not> is_space c"
  by (auto simp: dir_prefix_def is_space_def)

lemma stubs_joined:
  assumes "\<forall>c\<in>set p. \<not> is_space c"
    and "\<forall>n\<in>set ns. fq_regex_match suffix n \<noteq> None"
  shows "stubs suffix (map ((@) p) ns) =
           Inr (map (\<lambda>n. p @ the (fq_regex_match suffix n)) ns)"
  using assms(2)
proof (induction ns)
  case Nil
  then show ?case by simp
next
  case (Cons n ns)
  then obtain g where g: "fq_regex_match suffix n = Some g" by auto
  from fq_regex_match_append [OF assms(1) g] g Cons show ?case by simp
qed


lemma resolver_stub_lists:
  assumes "\<forall>c\<in>set DATADIR. \<not> is_space c"
    and "\<forall>n\<in>set listing. CHR ''/'' \<notin> set n"
  shows "stubs FASTQ1_SUFFIX (FASTQ1S DATADIR listing) =
           Inr (map (\<lambda>n. dir_prefix DATADIR @ the (fq_regex_match FASTQ1_SUFFIX n))
                 (filter (\<lambda>n. fq_regex_match FASTQ1_SUFFIX n \<noteq> None) listing))"
    and "stubs FASTQ2_SUFFIX (fastq2s DATADIR listing) =
           Inr (map (\<lambda>n. dir_prefix DATADIR @ the (fq_regex_match FASTQ2_SUFFIX n))
                 (filter (\<lambda>n. fq_regex_match FASTQ2_SUFFIX n \<noteq> None) listing))"
proof -
  have join: "map (os_path_join DATADIR) (filter P listing) =
      map ((@) (dir_prefix DATADIR)) (filter P listing)" for P
    using assms(2) by (simp add: os_path_join_entry)
  have nosp: "\<forall>c\<in>set (dir_prefix DATADIR). \<not> is_space c"
    using assms(1) by (rule dir_prefix_no_space)
  show "stubs FASTQ1_SUFFIX (FASTQ1S DATADIR listing) =
           Inr (map (\<lambda>n. dir_prefix DATADIR @ the (fq_regex_match FASTQ1_SUFFIX n))
                 (filter (\<lambda>n. fq_regex_match FASTQ1_SUFFIX n \<noteq> None) listing))"
    unfolding FASTQ1S_def mask_of_def compress_map join
    by (rule stubs_joined [OF nosp]) simp
  show "stubs FASTQ2_SUFFIX (fastq2s DATADIR listing) =
           Inr (map (\<lambda>n. dir_prefix DATADIR @ the (fq_regex_match FASTQ2_SUFFIX n))
                 (filter (\<lambda>n. fq_regex_match FASTQ2_SUFFIX n \<noteq> None) listing))"
    unfolding fastq2s_def mask_of_def compress_map join
    by (rule stubs_joined [OF nosp]) simp
qed

lemma IS_PAIRED_no_input:
  assumes "\<forall>n\<in>set listing. fq_regex_match FASTQ1_SUFFIX n = None"
  shows "IS_PAIRED DATADIR listing = Inl (ValueError ''No input files detected'')"
proof -
  from assms have "filter (\<lambda>x. fq_regex_match FASTQ1_SUFFIX x \<noteq> None) listing = []"
    by (simp add: filter_empty_conv)
  then show ?thesis
    by (simp add: IS_PAIRED_def sum_mask_mask_of)
qed

lemma IS_PAIRED_mixed:
  assumes nosp: "\<forall>c\<in>set DATADIR. \<not> is_space c"
    and names: "\<forall>n\<in>set listing. CHR ''/'' \<notin> set n"
    and some: "m \<in> set listing" "fq_regex_match FASTQ2_SUFFIX m \<noteq> None"
    and odd: "n \<in> set listing" "fq_regex_match FASTQ1_SUFFIX n = Some s"
      "\<forall>m\<in>set listing. fq_regex_match FASTQ2_SUFFIX m \<noteq> Some s"
  shows "IS_PAIRED DATADIR listing = Inl (AssertionError ''Not all input files have pairs'') \<or>
         IS_PAIRED DATADIR listing =
           Inl (AssertionError ''First and second read pair files do not correspond'')"
proof -
  let ?f1 = "filter (\<lambda>x. fq_regex_match FASTQ1_SUFFIX x \<noteq> None) listing"
  let ?f2 = "filter (\<lambda>x. fq_regex_match FASTQ2_SUFFIX x \<noteq> None) listing"
  let ?L1 = "map (\<lambda>n. dir_prefix DATADIR @ the (fq_regex_match FASTQ1_SUFFIX n)) ?f1"
  let ?L2 = "map (\<lambda>n. dir_prefix DATADIR @ the (fq_regex_match FASTQ2_SUFFIX n)) ?f2"
  from odd have n1: "n \<in> set ?f1" by simp
  then have ne1: "length ?f1 \<noteq> 0" by (metis length_0_conv empty_iff empty_set)
  from some have "m \<in> set ?f2" by simp
  then have ne2: "length ?f2 \<noteq> 0" by (metis length_0_conv empty_iff empty_set)
  from n1 odd(2) have in1: "dir_prefix DATADIR @ s \<in> set ?L1" by force
  have out2: "dir_prefix DATADIR @ s \<notin> set ?L2"
  proof
    assume "dir_prefix DATADIR @ s \<in> set ?L2"
    then obtain m' where "m' \<in> set listing" "fq_regex_match FASTQ2_SUFFIX m' \<noteq> None"
      "the (fq_regex_match FASTQ2_SUFFIX m') = s" by auto
    then have "m' \<in> set listing" "fq_regex_match FASTQ2_SUFFIX m' = Some s" by auto
    with odd(3) show False by blast
  qed
  have "sort ?L1 \<noteq> sort ?L2"
  proof
    assume "sort ?L1 = sort ?L2"
    then have "set (sort ?L1) = set (sort ?L2)" by simp
    then have "set ?L1 = set ?L2" by simp
    with in1 out2 show False by blast
  qed
  with ne1 ne2 show ?thesis
    unfolding IS_PAIRED_def Let_def sum_mask_mask_of
      resolver_stub_lists [OF nosp names]
    by simp
qed

lemma IS_PAIRED_count_mismatch:
  assumes "sum_mask (mask_of FASTQ1_SUFFIX listing) \<noteq> 0"
    and "sum_mask (mask_of FASTQ2_SUFFIX listing) \<noteq> 0"
    and "sum_mask (mask_of FASTQ1_SUFFIX listing) \<noteq> sum_mask (mask_of FASTQ2_SUFFIX listing)"
  shows "IS_PAIRED DATADIR listing = Inl (AssertionError ''Not all input files have pairs'')"
  using assms by (simp add: IS_PAIRED_def Let_def)

lemma compress_mask_of:
  "compress listing (mask_of suffix listing) =
     filter (\<lambda>x. fq_regex_match suffix x \<noteq> None) listing"
  unfolding mask_of_def by (rule compress_map)

lemma filter_matching_entries:
  "filter P (filter (\<lambda>n. P n \<or> Q n) listing) = filter P listing"
  "filter Q (filter (\<lambda>n. P n \<or> Q n) listing) = filter Q listing"
  by (induction listing) auto

lemma resolver_ignores_other_entries:
  "IS_PAIRED DATADIR
      (filter (\<lambda>n. fq_regex_match FASTQ1_SUFFIX n \<noteq> None \<or>
                    fq_regex_match FASTQ2_SUFFIX n \<noteq> None) listing) =
     IS_PAIRED DATADIR listing"
  "FASTQ1S DATADIR
      (filter (\<lambda>n. fq_regex_match FASTQ1_SUFFIX n \<noteq> None \<or>
                    fq_regex_match FASTQ2_SUFFIX n \<noteq> None) listing) =
     FASTQ1S DATADIR listing"
  unfolding IS_PAIRED_def Let_def FASTQ1S_def fastq2s_def sum_mask_mask_of compress_mask_of
    filter_matching_entries
  by (rule refl)+

text \<open>
  C5. An entry that does not match the first-mate pattern at the start of its name is not
  a first-mate file for the resolver: with three paired samples and a single-end file
  whose name has a blank before the suffix, the resolver answers that the run is paired,
  and the single-end file is missing from \<^verbatim>\<open>FASTQ1S\<close>, without any error. And with a
  blank in the directory path, a first-mate file without a partner gives neither pairing
  assertion: taking the stub of the joined path raises \<^verbatim>\<open>AttributeError\<close>.
\<close>

theorem odd_file_silently_dropped:
  "IS_PAIRED ''input.dir''
      [''A.fastq.1.gz'', ''A.fastq.2.gz'', ''B.fastq.1.gz'', ''B.fastq.2.gz'',
       ''C.fastq.1.gz'', ''C.fastq.2.gz'', ''sample D.fastq.1.gz''] = Inr True \<and>
   FASTQ1S ''input.dir''
      [''A.fastq.1.gz'', ''A.fastq.2.gz'', ''B.fastq.1.gz'', ''B.fastq.2.gz'',
       ''C.fastq.1.gz'', ''C.fastq.2.gz'', ''sample D.fastq.1.gz''] =
     [''input.dir/A.fastq.1.gz'', ''input.dir/B.fastq.1.gz'', ''input.dir/C.fastq.1.gz''] \<and>
   IS_PAIRED ''my dir'' [''A.fastq.1.gz'', ''B.fastq.1.gz'', ''A.fastq.2.gz'', ''C.fastq.2.gz''] =
     Inl (AttributeError ''group'')"
  by code_simp

text \<open>
  C5, as the code has it. The resolver sees only the entries that match one of its two
  patterns at the start of the name: (4) every other entry is ignored, by
  \<^verbatim>\<open>IS_PAIRED\<close> and by \<^verbatim>\<open>FASTQ1S\<close>. Among the entries it sees: (1) when there are
  second-mate files and their number differs from the number of first-mate files (three
  paired samples and one single-end file, say), it fails with the assertion of line 91,
  whatever the directory is called. (2) When one first-mate file has a second-mate file
  with the same stub and another first-mate file has none, it fails with one of its two
  pairing assertions, provided the directory path has no whitespace and the entries are
  directory entries (no slash in a name): the code takes the stubs from the joined paths.
  (3) When no entry matches the first-mate pattern, it fails with the \<^verbatim>\<open>ValueError\<close> of
  line 100.
\<close>

theorem pairing_mode_uniform:
  "(sum_mask (mask_of FASTQ1_SUFFIX listing) \<noteq> 0 \<and>
    sum_mask (mask_of FASTQ2_SUFFIX listing) \<noteq> 0 \<and>
    sum_mask (mask_of FASTQ1_SUFFIX listing) \<noteq> sum_mask (mask_of FASTQ2_SUFFIX listing)
    \<longrightarrow> IS_PAIRED DATADIR listing = Inl (AssertionError ''Not all input files have pairs''))
   \<and>
   ((\<forall>c\<in>set DATADIR. \<not> is_space c) \<and> (\<forall>n\<in>set listing. CHR ''/'' \<notin> set n) \<and>
    (\<exists>n\<in>set listing. \<exists>s. fq_regex_match FASTQ1_SUFFIX n = Some s \<and>
       (\<exists>m\<in>set listing. fq_regex_match FASTQ2_SUFFIX m = Some s)) \<and>
    (\<exists>n\<in>set listing. \<exists>s. fq_regex_match FASTQ1_SUFFIX n = Some s \<and>
       (\<forall>m\<in>set listing. fq_regex_match FASTQ2_SUFFIX m \<noteq> Some s))
    \<longrightarrow>
      IS_PAIRED DATADIR listing = Inl (AssertionError ''Not all input files have pairs'') \<or>
      IS_PAIRED DATADIR listing =
        Inl (AssertionError ''First and second read pair files do not correspond''))
   \<and>
   ((\<forall>n\<in>set listing. fq_regex_match FASTQ1_SUFFIX n = None) \<longrightarrow>
      IS_PAIRED DATADIR listing = Inl (ValueError ''No input files detected''))
   \<and>
   IS_PAIRED DATADIR
      (filter (\<lambda>n. fq_regex_match FASTQ1_SUFFIX n \<noteq> None \<or>
                    fq_regex_match FASTQ2_SUFFIX n \<noteq> None) listing) =
     IS_PAIRED DATADIR listing
   \<and>
   FASTQ1S DATADIR
      (filter (\<lambda>n. fq_regex_match FASTQ1_SUFFIX n \<noteq> None \<or>
                    fq_regex_match FASTQ2_SUFFIX n \<noteq> None) listing) =
     FASTQ1S DATADIR listing"
proof (intro conjI impI)
  assume "sum_mask (mask_of FASTQ1_SUFFIX listing) \<noteq> 0 \<and>
    sum_mask (mask_of FASTQ2_SUFFIX listing) \<noteq> 0 \<and>
    sum_mask (mask_of FASTQ1_SUFFIX listing) \<noteq> sum_mask (mask_of FASTQ2_SUFFIX listing)"
  then show "IS_PAIRED DATADIR listing = Inl (AssertionError ''Not all input files have pairs'')"
    by (intro IS_PAIRED_count_mismatch) simp_all
next
  assume h: "(\<forall>c\<in>set DATADIR. \<not> is_space c) \<and> (\<forall>n\<in>set listing. CHR ''/'' \<notin> set n) \<and>
    (\<exists>n\<in>set listing. \<exists>s. fq_regex_match FASTQ1_SUFFIX n = Some s \<and>
       (\<exists>m\<in>set listing. fq_regex_match FASTQ2_SUFFIX m = Some s)) \<and>
    (\<exists>n\<in>set listing. \<exists>s. fq_regex_match FASTQ1_SUFFIX n = Some s \<and>
       (\<forall>m\<in>set listing. fq_regex_match FASTQ2_SUFFIX m \<noteq> Some s))"
  then have dir: "\<forall>c\<in>set DATADIR. \<not> is_space c"
    and names: "\<forall>n\<in>set listing. CHR ''/'' \<notin> set n"
    by simp_all
  from h obtain m n s where "m \<in> set listing" "fq_regex_match FASTQ2_SUFFIX m \<noteq> None"
    "n \<in> set listing" "fq_regex_match FASTQ1_SUFFIX n = Some s"
    "\<forall>m\<in>set listing. fq_regex_match FASTQ2_SUFFIX m \<noteq> Some s"
    by force
  then show "IS_PAIRED DATADIR listing = Inl (AssertionError ''Not all input files have pairs'') \<or>
      IS_PAIRED DATADIR listing =
        Inl (AssertionError ''First and second read pair files do not correspond'')"
    by (rule IS_PAIRED_mixed [OF dir names])
next
  assume "\<forall>n\<in>set listing. fq_regex_match FASTQ1_SUFFIX n = None"
  then show "IS_PAIRED DATADIR listing = Inl (ValueError ''No input files detected'')"
    by (rule IS_PAIRED_no_input)
next
  show "IS_PAIRED DATADIR
      (filter (\<lambda>n. fq_regex_match FASTQ1_SUFFIX n \<noteq> None \<or>
                    fq_regex_match FASTQ2_SUFFIX n \<noteq> None) listing) =
     IS_PAIRED DATADIR listing"
    by (rule resolver_ignores_other_entries)
next
  show "FASTQ1S DATADIR
      (filter (\<lambda>n. fq_regex_match FASTQ1_SUFFIX n \<noteq> None \<or>
                    fq_regex_match FASTQ2_SUFFIX n \<noteq> None) listing) =
     FASTQ1S DATADIR listing"
    by (rule resolver_ignores_other_entries)
qed

theorem pairing_mode_uniform_witness:
  "IS_PAIRED ''my dir'' [''A.fastq.1.gz'', ''A.fastq.2.gz'', ''B.fastq.1.gz'', ''B.fastq.2.gz'',
       ''C.fastq.1.gz'', ''C.fastq.2.gz'', ''D.fastq.1.gz''] =
      Inl (AssertionError ''Not all input files have pairs'') \<and>
   (IS_PAIRED ''.'' [''A.fastq.1.gz'', ''B.fastq.1.gz'', ''A.fastq.2.gz'', ''C.fastq.2.gz''] =
      Inl (AssertionError ''Not all input files have pairs'') \<or>
    IS_PAIRED ''.'' [''A.fastq.1.gz'', ''B.fastq.1.gz'', ''A.fastq.2.gz'', ''C.fastq.2.gz''] =
      Inl (AssertionError ''First and second read pair files do not correspond'')) \<and>
   IS_PAIRED ''.'' [''notes.txt''] = Inl (ValueError ''No input files detected'') \<and>
   IS_PAIRED ''input.dir'' [''A.fastq.1.gz'', ''A.fastq.2.gz'', ''notes.txt'',
       ''sample B.fastq.1.gz''] =
     IS_PAIRED ''input.dir'' [''A.fastq.1.gz'', ''A.fastq.2.gz'']"
proof -
  let ?L7 = "[''A.fastq.1.gz'', ''A.fastq.2.gz'', ''B.fastq.1.gz'', ''B.fastq.2.gz'',
       ''C.fastq.1.gz'', ''C.fastq.2.gz'', ''D.fastq.1.gz'']"
  let ?L4 = "[''A.fastq.1.gz'', ''B.fastq.1.gz'', ''A.fastq.2.gz'', ''C.fastq.2.gz'']"
  have c1: "sum_mask (mask_of FASTQ1_SUFFIX ?L7) = 4"
    by code_simp
  have c2: "sum_mask (mask_of FASTQ2_SUFFIX ?L7) = 3"
    by code_simp
  have dir: "\<forall>c\<in>set ''.''. \<not> is_space c"
    by (simp add: is_space_def)
  have names: "\<forall>n\<in>set ?L4. CHR ''/'' \<notin> set n"
    by simp
  have a1: "fq_regex_match FASTQ1_SUFFIX ''A.fastq.1.gz'' = Some ''A''"
    by code_simp
  have a2: "fq_regex_match FASTQ2_SUFFIX ''A.fastq.2.gz'' = Some ''A''"
    by code_simp
  have b1: "fq_regex_match FASTQ1_SUFFIX ''B.fastq.1.gz'' = Some ''B''"
    by code_simp
  have b2: "\<forall>m\<in>set ?L4. fq_regex_match FASTQ2_SUFFIX m \<noteq> Some ''B''"
    by code_simp
  have paired: "\<exists>n\<in>set ?L4. \<exists>s. fq_regex_match FASTQ1_SUFFIX n = Some s \<and>
      (\<exists>m\<in>set ?L4. fq_regex_match FASTQ2_SUFFIX m = Some s)"
    using a1 a2 by (intro bexI [of _ "''A.fastq.1.gz''"] exI [of _ "''A''"] conjI
        bexI [of _ "''A.fastq.2.gz''"]) simp_all
  have single: "\<exists>n\<in>set ?L4. \<exists>s. fq_regex_match FASTQ1_SUFFIX n = Some s \<and>
      (\<forall>m\<in>set ?L4. fq_regex_match FASTQ2_SUFFIX m \<noteq> Some s)"
    using b1 b2 by (intro bexI [of _ "''B.fastq.1.gz''"] exI [of _ "''B''"] conjI) simp_all
  have none: "\<forall>n\<in>set [''notes.txt'']. fq_regex_match FASTQ1_SUFFIX n = None"
    by code_simp
  from pairing_mode_uniform [of ?L7 "''my dir''"] c1 c2
  have r1: "IS_PAIRED ''my dir'' ?L7 = Inl (AssertionError ''Not all input files have pairs'')"
    by simp
  from pairing_mode_uniform [of ?L4 "''.''"] dir names paired single
  have r2: "IS_PAIRED ''.'' ?L4 = Inl (AssertionError ''Not all input files have pairs'') \<or>
      IS_PAIRED ''.'' ?L4 =
        Inl (AssertionError ''First and second read pair files do not correspond'')"
    by blast
  from pairing_mode_uniform [of "[''notes.txt'']" "''.''"] none
  have r3: "IS_PAIRED ''.'' [''notes.txt''] = Inl (ValueError ''No input files detected'')"
    by blast
  have seen: "filter (\<lambda>n. fq_regex_match FASTQ1_SUFFIX n \<noteq> None \<or>
                    fq_regex_match FASTQ2_SUFFIX n \<noteq> None)
      [''A.fastq.1.gz'', ''A.fastq.2.gz'', ''notes.txt'', ''sample B.fastq.1.gz''] =
    [''A.fastq.1.gz'', ''A.fastq.2.gz'']"
    by code_simp
  from pairing_mode_uniform [of "[''A.fastq.1.gz'', ''A.fastq.2.gz'', ''notes.txt'',
       ''sample B.fastq.1.gz'']" "''input.dir''"]
  have r4: "IS_PAIRED ''input.dir'' [''A.fastq.1.gz'', ''A.fastq.2.gz'', ''notes.txt'',
       ''sample B.fastq.1.gz''] =
     IS_PAIRED ''input.dir'' [''A.fastq.1.gz'', ''A.fastq.2.gz'']"
    unfolding seen by simp
  from r1 r2 r3 r4 show ?thesis by blast
qed

section \<open>Properties of the pass-through links\<close>

lemma errno_unbound: "''errno'' \<notin> set module_globals"
  by (simp add: module_globals_def)

lemma symlnk_eq:
  "symlnk abspath fs infl outf =
     (if fs outf = None then Inr (fs(outf \<mapsto> Symlink (abspath infl)))
      else Inl (NameError ''errno''))"
  using errno_unbound by (simp add: symlnk_def os_symlink_def)

lemma snip_append: "snip (stem @ ext) ext = Inr stem"
  by (simp add: snip_def)

text \<open>
  C10. \<^verbatim>\<open>errno\<close> is not a name of the module, so the handler of \<^verbatim>\<open>symlnk\<close> raises
  \<^verbatim>\<open>NameError\<close> instead of replacing the link: \<^verbatim>\<open>symlnk\<close> succeeds exactly when the
  output path does not exist yet, and raises \<^verbatim>\<open>NameError\<close> when it does. The pass-through
  branches of \<^verbatim>\<open>removeDuplicates\<close> (deduplication switched off, paired or not) therefore
  raise \<^verbatim>\<open>NameError\<close> when run over an existing output.
\<close>

theorem symlnk_NameError_when_output_exists:
  "symlnk abspath fs infl outf =
     (if fs outf = None then Inr (fs(outf \<mapsto> Symlink (abspath infl)))
      else Inl (NameError ''errno'')) \<and>
   (fs (stem @ ''.fastq.1.gz'') \<noteq> None \<longrightarrow>
      removeDuplicates run abspath (PARAMS\<lparr>cdhit_dedup := False\<rparr>) True fs
        (src @ FASTQ1_SUFFIX) (stem @ ''.fastq.1.gz'') = Inl (NameError ''errno'') \<and>
      removeDuplicates run abspath (PARAMS\<lparr>preprocess_dedup := False\<rparr>) False fs
        (src @ FASTQ1_SUFFIX) (stem @ ''.fastq.1.gz'') = Inl (NameError ''errno''))"
proof -
  have s1: "snip (stem @ ''.fastq.1.gz'') ''.gz'' = Inr (stem @ ''.fastq.1'')"
    using snip_append [of "stem @ ''.fastq.1''" "''.gz''"] by simp
  have s2: "snip (stem @ ''.fastq.1'') ''.fastq.1'' = Inr stem"
    by (rule snip_append)
  have s3: "snip (stem @ ''.fastq.1'') ''1'' = Inr (stem @ ''.fastq.'')"
    using snip_append [of "stem @ ''.fastq.''" "''1''"] by simp
  have s4: "snip (src @ FASTQ1_SUFFIX) FASTQ1_SUFFIX = Inr src"
    by (rule snip_append)
  show ?thesis
    by (simp add: removeDuplicates_def s1 s2 s3 s4 symlnk_eq Let_def)
qed

theorem symlnk_NameError_when_output_exists_witness:
  "symlnk (\<lambda>p. ''/data/'' @ p)
     (Map.empty(''reads_deduped.dir/S1_deduped.fastq.1.gz'' \<mapsto> Symlink ''/data/input.dir/S1.fastq.1.gz''))
     ''input.dir/S1.fastq.1.gz'' ''reads_deduped.dir/S1_deduped.fastq.1.gz'' =
     Inl (NameError ''errno'') \<and>
   removeDuplicates (\<lambda>tool args fs. None) (\<lambda>p. ''/data/'' @ p)
     \<lparr> cdhit_dedup = False, preprocess_dedup = False, bmtagger_keep_pairs = True,
       bmtagger_bitmask = ''h1'', bmtagger_srprism = ''s1'' \<rparr> True
     (Map.empty(''reads_deduped.dir/S1_deduped.fastq.1.gz'' \<mapsto> Symlink ''/data/input.dir/S1.fastq.1.gz''))
     ''input.dir/S1.fastq.1.gz'' ''reads_deduped.dir/S1_deduped.fastq.1.gz'' =
     Inl (NameError ''errno'') \<and>
   symlnk (\<lambda>p. ''/data/'' @ p) Map.empty
     ''input.dir/S1.fastq.1.gz'' ''reads_deduped.dir/S1_deduped.fastq.1.gz'' =
     Inr (Map.empty(''reads_deduped.dir/S1_deduped.fastq.1.gz'' \<mapsto> Symlink ''/data/input.dir/S1.fastq.1.gz''))"
proof -
  let ?fs = "Map.empty(''reads_deduped.dir/S1_deduped.fastq.1.gz'' \<mapsto>
      Symlink ''/data/input.dir/S1.fastq.1.gz'')"
  let ?P = "\<lparr> cdhit_dedup = False, preprocess_dedup = False, bmtagger_keep_pairs = True,
       bmtagger_bitmask = ''h1'', bmtagger_srprism = ''s1'' \<rparr>"
  have ex: "?fs (''reads_deduped.dir/S1_deduped'' @ ''.fastq.1.gz'') \<noteq> None"
    by simp
  from symlnk_NameError_when_output_exists
    [where fs = ?fs and stem = "''reads_deduped.dir/S1_deduped''" and src = "''input.dir/S1.''"
      and abspath = "\<lambda>p. ''/data/'' @ p" and PARAMS = ?P and run = "\<lambda>tool args fs. None"
      and infl = "''input.dir/S1.fastq.1.gz''"
      and outf = "''reads_deduped.dir/S1_deduped.fastq.1.gz''"] ex
    symlnk_NameError_when_output_exists
    [where fs = Map.empty and abspath = "\<lambda>p. ''/data/'' @ p"
      and infl = "''input.dir/S1.fastq.1.gz''"
      and outf = "''reads_deduped.dir/S1_deduped.fastq.1.gz''"]
  show ?thesis
    by (simp add: FASTQ1_SUFFIX_def)
qed


section \<open>Properties of host removal\<close>

lemma flagged_by_Nil: "flagged_by [] screen i = False"
  by (simp add: flagged_by_def)

lemma flagged_by_Cons:
  "flagged_by ((b, s) # indexes) screen i =
     ((\<exists>ids. screen b s = Some ids \<and> i \<in> set ids) \<or> flagged_by indexes screen i)"
  by (simp add: flagged_by_def)

lemma screen_loop_union:
  assumes "screen_loop pe se fastq1 fastq2 (Some reads3) indexes (p, q) = Inr (p', q')"
  shows "set p' = set p \<union> {i. flagged_by indexes (\<lambda>b s. pe b s fastq1 fastq2) i} \<and>
         set q' = set q \<union> {i. reads3 \<noteq> [] \<and> flagged_by indexes (\<lambda>b s. se b s reads3) i}"
  using assms
proof (induction indexes arbitrary: p q)
  case Nil
  then show ?case by (simp add: flagged_by_Nil)
next
  case (Cons x indexes)
  obtain b s where x: "x = (b, s)" by (cases x)
  from Cons.prems x obtain f where f: "pe b s fastq1 fastq2 = Some f"
    by (cases "pe b s fastq1 fastq2") simp_all
  show ?case
  proof (cases "reads3 = []")
    case True
    with Cons.prems x f
    have "screen_loop pe se fastq1 fastq2 (Some reads3) indexes (p @ f, q) = Inr (p', q')"
      by simp
    from Cons.IH [OF this] True x f show ?thesis
      by (auto simp: flagged_by_Cons)
  next
    case False
    with Cons.prems x f obtain g where g: "se b s reads3 = Some g"
      by (cases "se b s reads3") simp_all
    with Cons.prems x f False
    have "screen_loop pe se fastq1 fastq2 (Some reads3) indexes (p @ f, q @ g) = Inr (p', q')"
      by simp
    from Cons.IH [OF this] False x f g show ?thesis
      by (auto simp: flagged_by_Cons)
  qed
qed

lemma screen_loop_empty_singletons:
  assumes "\<forall>(b, s)\<in>set indexes. pe b s fastq1 fastq2 \<noteq> None"
  shows "screen_loop pe se fastq1 fastq2 (Some []) indexes (p, q) =
           Inr (p @ concat (map (\<lambda>(b, s). the (pe b s fastq1 fastq2)) indexes), q)"
  using assms
proof (induction indexes arbitrary: p)
  case Nil
  then show ?case by simp
next
  case (Cons x indexes)
  obtain b s where x: "x = (b, s)" by (cases x)
  from Cons.prems x obtain f where f: "pe b s fastq1 fastq2 = Some f" by auto
  from Cons.prems have "\<forall>(b, s)\<in>set indexes. pe b s fastq1 fastq2 \<noteq> None" by simp
  from Cons.IH [OF this, of "p @ f"] x f show ?case by simp
qed

lemma screen_loop_ignores_se:
  "screen_loop pe se fastq1 fastq2 (Some []) indexes acc =
   screen_loop pe se' fastq1 fastq2 (Some []) indexes acc"
proof (induction indexes arbitrary: acc)
  case Nil
  then show ?case by simp
next
  case (Cons x indexes)
  obtain b s where x: "x = (b, s)" by (cases x)
  obtain p q where acc: "acc = (p, q)" by (cases acc)
  show ?case
    unfolding x acc by (cases "pe b s fastq1 fastq2") (simp_all add: Cons.IH)
qed

lemma two_indexes:
  "reference_indexes \<lparr> cdhit_dedup = True, preprocess_dedup = True, bmtagger_keep_pairs = True,
       bmtagger_bitmask = ''h1,h2'', bmtagger_srprism = ''s1,s2'' \<rparr> =
     [(''h1'', ''s1''), (''h2'', ''s2'')]"
  by (simp add: reference_indexes_def)

text \<open>
  C8. With an empty third read file the singletons are not screened for any index: the
  outcome does not depend on the singleton screening \<open>se\<close>, which may even fail on
  every call. When the paired screening succeeds for every index, the drop script is run
  with an empty list of singleton identifiers and an empty third file, and its result is
  the result of the stage: the empty file causes no error.
\<close>

theorem empty_singleton_file_skips_screening:
  "removeHostContamination pe se drop_script run1 PARAMS True fastq1 fastq2 (Some []) =
   removeHostContamination pe se' drop_script run1 PARAMS True fastq1 fastq2 (Some []) \<and>
   ((\<forall>(b, s)\<in>set (reference_indexes PARAMS). pe b s fastq1 fastq2 \<noteq> None) \<longrightarrow>
      removeHostContamination pe se drop_script run1 PARAMS True fastq1 fastq2 (Some []) =
        (keep_pairs_info (bmtagger_keep_pairs PARAMS),
         case drop_script
                \<lparr> arg_fastq1 = fastq1, arg_fastq2 = fastq2, arg_fastq3 = [],
                  to_drop_paired =
                    concat (map (\<lambda>(b, s). the (pe b s fastq1 fastq2)) (reference_indexes PARAMS)),
                  to_drop_single = [] \<rparr> of
           None \<Rightarrow> Inl (RunError ''drop_fastqs.py'')
         | Some out \<Rightarrow> Inr out))"
proof (intro conjI impI)
  show "removeHostContamination pe se drop_script run1 PARAMS True fastq1 fastq2 (Some []) =
   removeHostContamination pe se' drop_script run1 PARAMS True fastq1 fastq2 (Some [])"
    unfolding removeHostContamination_def Let_def
    by (simp add: screen_loop_ignores_se [of pe se _ _ _ _ se'])
next
  assume "\<forall>(b, s)\<in>set (reference_indexes PARAMS). pe b s fastq1 fastq2 \<noteq> None"
  then have "screen_loop pe se fastq1 fastq2 (Some []) (reference_indexes PARAMS) ([], []) =
      Inr ([] @ concat (map (\<lambda>(b, s). the (pe b s fastq1 fastq2)) (reference_indexes PARAMS)), [])"
    by (rule screen_loop_empty_singletons)
  then show "removeHostContamination pe se drop_script run1 PARAMS True fastq1 fastq2 (Some []) =
        (keep_pairs_info (bmtagger_keep_pairs PARAMS),
         case drop_script
                \<lparr> arg_fastq1 = fastq1, arg_fastq2 = fastq2, arg_fastq3 = [],
                  to_drop_paired =
                    concat (map (\<lambda>(b, s). the (pe b s fastq1 fastq2)) (reference_indexes PARAMS)),
                  to_drop_single = [] \<rparr> of
           None \<Rightarrow> Inl (RunError ''drop_fastqs.py'')
         | Some out \<Rightarrow> Inr out)"
    by (simp add: removeHostContamination_def Let_def)
qed


theorem empty_singleton_file_skips_screening_witness:
  "removeHostContamination
     (\<lambda>b s f1 f2. if b = ''h2'' then Some [''a''] else Some [])
     (\<lambda>b s f3. None)
     drop_fastqs (\<lambda>b s f1. True)
     \<lparr> cdhit_dedup = True, preprocess_dedup = True, bmtagger_keep_pairs = True,
       bmtagger_bitmask = ''h1,h2'', bmtagger_srprism = ''s1,s2'' \<rparr> True
     [\<lparr>read_id = ''a'', bases = ''ACGT'', quals = ''IIII''\<rparr>,
      \<lparr>read_id = ''b'', bases = ''TTTT'', quals = ''IIII''\<rparr>]
     [\<lparr>read_id = ''a'', bases = ''CCCC'', quals = ''IIII''\<rparr>,
      \<lparr>read_id = ''b'', bases = ''GGGG'', quals = ''IIII''\<rparr>]
     (Some []) =
   (keep_pairs_info True,
    Inr \<lparr> fastq_out1 = [\<lparr>read_id = ''b'', bases = ''TTTT'', quals = ''IIII''\<rparr>],
          fastq_out2 = [\<lparr>read_id = ''b'', bases = ''GGGG'', quals = ''IIII''\<rparr>],
          fastq_out3 = [],
          fastq_drop1 = [\<lparr>read_id = ''a'', bases = ''ACGT'', quals = ''IIII''\<rparr>],
          fastq_drop2 = [\<lparr>read_id = ''a'', bases = ''CCCC'', quals = ''IIII''\<rparr>],
          fastq_drop3 = [] \<rparr>)"
proof -
  let ?P = "\<lparr> cdhit_dedup = True, preprocess_dedup = True, bmtagger_keep_pairs = True,
       bmtagger_bitmask = ''h1,h2'', bmtagger_srprism = ''s1,s2'' \<rparr>"
  let ?f1 = "[\<lparr>read_id = ''a'', bases = ''ACGT'', quals = ''IIII''\<rparr>,
      \<lparr>read_id = ''b'', bases = ''TTTT'', quals = ''IIII''\<rparr>]"
  let ?f2 = "[\<lparr>read_id = ''a'', bases = ''CCCC'', quals = ''IIII''\<rparr>,
      \<lparr>read_id = ''b'', bases = ''GGGG'', quals = ''IIII''\<rparr>]"
  let ?pe = "\<lambda>(b :: string) (s :: string) (f1 :: fastq_read list) (f2 :: fastq_read list).
      if b = ''h2'' then Some [''a''] else Some []"
  have ok: "\<forall>(b, s)\<in>set (reference_indexes ?P). ?pe b s ?f1 ?f2 \<noteq> None"
    by (simp add: two_indexes)
  from empty_singleton_file_skips_screening
    [of ?pe "\<lambda>b s f3. None" drop_fastqs "\<lambda>b s f1. True" ?P ?f1 ?f2 "\<lambda>b s f3. None"] ok
  show ?thesis
    by (simp add: two_indexes drop_fastqs_def)
qed

text \<open>
  C4. The value of \<^verbatim>\<open>bmtagger_keep_pairs\<close> selects the message that is logged and nothing
  else: the screening and the command line of the drop script are the same for both
  values, so the outcome of the stage is the same, whatever the drop script does with its
  arguments.
\<close>

theorem keep_pairs_never_reaches_drop_step:
  "snd (removeHostContamination pe se drop_script run1 (PARAMS\<lparr>bmtagger_keep_pairs := True\<rparr>)
          is_paired fastq1 fastq2 fastq3) =
   snd (removeHostContamination pe se drop_script run1 (PARAMS\<lparr>bmtagger_keep_pairs := False\<rparr>)
          is_paired fastq1 fastq2 fastq3)"
  by (simp add: removeHostContamination_def Let_def reference_indexes_def)


text \<open>
  C3. When the stage succeeds on a paired sample, a read of either mate file is in the
  host output exactly when its identifier was returned by the paired screening of at least
  one index, and in the clean output exactly when no index returned it; the same holds for
  the reads of the third file and the singleton screening. The flags of the indexes are
  accumulated by the loop of the source; the routing is that of the drop script as the
  spec describes it.
\<close>

theorem flagged_by_any_index_is_host:
  assumes "removeHostContamination pe se drop_fastqs run1 PARAMS True fastq1 fastq2 (Some reads3) =
             (info, Inr out)"
  shows "(\<forall>r\<in>set fastq1.
            (r \<in> set (fastq_drop1 out)) =
              flagged_by (reference_indexes PARAMS) (\<lambda>b s. pe b s fastq1 fastq2) (read_id r) \<and>
            (r \<in> set (fastq_out1 out)) =
              (\<not> flagged_by (reference_indexes PARAMS) (\<lambda>b s. pe b s fastq1 fastq2) (read_id r))) \<and>
         (\<forall>r\<in>set fastq2.
            (r \<in> set (fastq_drop2 out)) =
              flagged_by (reference_indexes PARAMS) (\<lambda>b s. pe b s fastq1 fastq2) (read_id r) \<and>
            (r \<in> set (fastq_out2 out)) =
              (\<not> flagged_by (reference_indexes PARAMS) (\<lambda>b s. pe b s fastq1 fastq2) (read_id r))) \<and>
         (\<forall>r\<in>set reads3.
            (r \<in> set (fastq_drop3 out)) =
              flagged_by (reference_indexes PARAMS) (\<lambda>b s. se b s reads3) (read_id r) \<and>
            (r \<in> set (fastq_out3 out)) =
              (\<not> flagged_by (reference_indexes PARAMS) (\<lambda>b s. se b s reads3) (read_id r)))"
proof -
  from assms obtain p q where
    loop: "screen_loop pe se fastq1 fastq2 (Some reads3) (reference_indexes PARAMS) ([], []) = Inr (p, q)"
    and drop: "drop_fastqs \<lparr> arg_fastq1 = fastq1, arg_fastq2 = fastq2, arg_fastq3 = reads3,
                  to_drop_paired = p, to_drop_single = q \<rparr> = Some out"
    by (auto simp: removeHostContamination_def Let_def split: sum.splits option.splits)
  from screen_loop_union [OF loop] have
    p: "set p = {i. flagged_by (reference_indexes PARAMS) (\<lambda>b s. pe b s fastq1 fastq2) i}" and
    q: "set q = {i. reads3 \<noteq> [] \<and> flagged_by (reference_indexes PARAMS) (\<lambda>b s. se b s reads3) i}"
    by simp_all
  from drop have out:
    "fastq_out1 out = filter (\<lambda>r. read_id r \<notin> set p) fastq1"
    "fastq_out2 out = filter (\<lambda>r. read_id r \<notin> set p) fastq2"
    "fastq_out3 out = filter (\<lambda>r. read_id r \<notin> set q) reads3"
    "fastq_drop1 out = filter (\<lambda>r. read_id r \<in> set p) fastq1"
    "fastq_drop2 out = filter (\<lambda>r. read_id r \<in> set p) fastq2"
    "fastq_drop3 out = filter (\<lambda>r. read_id r \<in> set q) reads3"
    by (auto simp: drop_fastqs_def split: if_splits)
  show ?thesis
    unfolding out p q by auto
qed

theorem flagged_by_any_index_is_host_witness:
  "flagged_by [(''h1'', ''s1''), (''h2'', ''s2'')]
     (\<lambda>b s. if b = ''h2'' then Some [''a''] else Some []) ''a'' \<and>
   \<lparr>read_id = ''a'', bases = ''ACGT'', quals = ''IIII''\<rparr> \<in> set (fastq_drop1
     \<lparr> fastq_out1 = [\<lparr>read_id = ''b'', bases = ''TTTT'', quals = ''IIII''\<rparr>],
       fastq_out2 = [\<lparr>read_id = ''b'', bases = ''GGGG'', quals = ''IIII''\<rparr>],
       fastq_out3 = [],
       fastq_drop1 = [\<lparr>read_id = ''a'', bases = ''ACGT'', quals = ''IIII''\<rparr>],
       fastq_drop2 = [\<lparr>read_id = ''a'', bases = ''CCCC'', quals = ''IIII''\<rparr>],
       fastq_drop3 = [\<lparr>read_id = ''d'', bases = ''AAAA'', quals = ''IIII''\<rparr>] \<rparr>) \<and>
   removeHostContamination
     (\<lambda>b s f1 f2. if b = ''h2'' then Some [''a''] else Some [])
     (\<lambda>b s f3. if b = ''h1'' then Some [''d''] else Some [])
     drop_fastqs (\<lambda>b s f1. True)
     \<lparr> cdhit_dedup = True, preprocess_dedup = True, bmtagger_keep_pairs = True,
       bmtagger_bitmask = ''h1,h2'', bmtagger_srprism = ''s1,s2'' \<rparr> True
     [\<lparr>read_id = ''a'', bases = ''ACGT'', quals = ''IIII''\<rparr>,
      \<lparr>read_id = ''b'', bases = ''TTTT'', quals = ''IIII''\<rparr>]
     [\<lparr>read_id = ''a'', bases = ''CCCC'', quals = ''IIII''\<rparr>,
      \<lparr>read_id = ''b'', bases = ''GGGG'', quals = ''IIII''\<rparr>]
     (Some [\<lparr>read_id = ''d'', bases = ''AAAA'', quals = ''IIII''\<rparr>]) =
   (keep_pairs_info True,
    Inr \<lparr> fastq_out1 = [\<lparr>read_id = ''b'', bases = ''TTTT'', quals = ''IIII''\<rparr>],
          fastq_out2 = [\<lparr>read_id = ''b'', bases = ''GGGG'', quals = ''IIII''\<rparr>],
          fastq_out3 = [],
          fastq_drop1 = [\<lparr>read_id = ''a'', bases = ''ACGT'', quals = ''IIII''\<rparr>],
          fastq_drop2 = [\<lparr>read_id = ''a'', bases = ''CCCC'', quals = ''IIII''\<rparr>],
          fastq_drop3 = [\<lparr>read_id = ''d'', bases = ''AAAA'', quals = ''IIII''\<rparr>] \<rparr>)"
proof -
  let ?P = "\<lparr> cdhit_dedup = True, preprocess_dedup = True, bmtagger_keep_pairs = True,
       bmtagger_bitmask = ''h1,h2'', bmtagger_srprism = ''s1,s2'' \<rparr>"
  let ?f1 = "[\<lparr>read_id = ''a'', bases = ''ACGT'', quals = ''IIII''\<rparr>,
      \<lparr>read_id = ''b'', bases = ''TTTT'', quals = ''IIII''\<rparr>]"
  let ?f2 = "[\<lparr>read_id = ''a'', bases = ''CCCC'', quals = ''IIII''\<rparr>,
      \<lparr>read_id = ''b'', bases = ''GGGG'', quals = ''IIII''\<rparr>]"
  let ?f3 = "[\<lparr>read_id = ''d'', bases = ''AAAA'', quals = ''IIII''\<rparr>]"
  let ?out = "\<lparr> fastq_out1 = [\<lparr>read_id = ''b'', bases = ''TTTT'', quals = ''IIII''\<rparr>],
          fastq_out2 = [\<lparr>read_id = ''b'', bases = ''GGGG'', quals = ''IIII''\<rparr>],
          fastq_out3 = [],
          fastq_drop1 = [\<lparr>read_id = ''a'', bases = ''ACGT'', quals = ''IIII''\<rparr>],
          fastq_drop2 = [\<lparr>read_id = ''a'', bases = ''CCCC'', quals = ''IIII''\<rparr>],
          fastq_drop3 = [\<lparr>read_id = ''d'', bases = ''AAAA'', quals = ''IIII''\<rparr>] \<rparr>"
  have run: "removeHostContamination
     (\<lambda>b s f1 f2. if b = ''h2'' then Some [''a''] else Some [])
     (\<lambda>b s f3. if b = ''h1'' then Some [''d''] else Some [])
     drop_fastqs (\<lambda>b s f1. True) ?P True ?f1 ?f2 (Some ?f3) = (keep_pairs_info True, Inr ?out)"
    by (simp add: removeHostContamination_def two_indexes drop_fastqs_def)
  have fl: "flagged_by [(''h1'', ''s1''), (''h2'', ''s2'')]
     (\<lambda>b s. if b = ''h2'' then Some [''a''] else Some []) ''a''"
    by (simp add: flagged_by_def)
  from flagged_by_any_index_is_host [OF run] fl run show ?thesis
    by (simp add: two_indexes)
qed

section \<open>Properties of the read counts\<close>









lemma path_nonempty: "d @ ''/'' @ g @ lit \<noteq> []"
  by simp










lemma first_mate_not_third: "p @ ''.fastq.1.gz'' \<noteq> q @ ''.fastq.3.gz''"
  using append_eq_append_conv [of "''.fastq.1.gz''" "''.fastq.3.gz''" p q] by simp

lemma count_ignores_third:
  "countOutputReads (zcat(q @ ''.fastq.3.gz'' := x)) (p @ ''.fastq.1.gz'') =
     countOutputReads zcat (p @ ''.fastq.1.gz'')"
  "countInputReads (zcat(q @ ''.fastq.3.gz'' := x)) (p @ ''.fastq.1.gz'') =
     countInputReads zcat (p @ ''.fastq.1.gz'')"
  unfolding countOutputReads_def countInputReads_def fun_upd_apply
  by (simp_all only: first_mate_not_third if_False)


lemma round_sig6_4000002: "round_sig6 (4000002 / 4) = 1000000"
  by code_simp





end
